theory Spec2Isabelle
  imports Complex_Main "HOL-Library.Word" "HOL-Library.Monad_Syntax"
begin

section \<open>Sample types\<close>

text \<open>
  The library is a set of C++ templates over the sample type \<open>T\<close>
  (\<open>uint8_t\<close>, \<open>uint16_t\<close>, \<open>uint32_t\<close>, \<open>uint64_t\<close>, \<open>double\<close>).  A template
  instantiation is modelled by passing what the code takes from \<open>T\<close> explicitly:
  \<open>sizeof(T)\<close>, \<open>std::is_floating_point<T>::value\<close>, the three constants of
  \<open>std::numeric_limits<T>\<close>, and the luma conversion
  \<open>static_cast<T>(std::llround(0.299 * r + 0.587 * g + 0.114 * b))\<close> of \<open>Color::Gray\<close>,
  whose double arithmetic is not evaluated here and is therefore kept as a function of
  the three channels.

  Unsigned samples of \<open>w\<close> bits are \<open>'w word\<close>; arithmetic on them wraps.  Values of
  \<open>double\<close> are the finite ones, read as reals.  \<open>int\<close> variables of the source are
  mathematical integers: signed overflow is undefined in C++, so the model speaks about
  runs in which no \<open>int\<close> computation leaves its range.
\<close>

record 'a sample_type =
  sizeof :: int
  is_floating_point :: bool
  numeric_min :: 'a
  numeric_max :: 'a
  numeric_lowest :: 'a
  luma :: "'a \<Rightarrow> 'a \<Rightarrow> 'a \<Rightarrow> 'a"

definition unsigned_type ::
  "('a::len word \<Rightarrow> 'a word \<Rightarrow> 'a word \<Rightarrow> 'a word) \<Rightarrow> 'a word sample_type" where
  "unsigned_type l =
     \<lparr> sizeof = int (LENGTH('a) div 8), is_floating_point = False,
       numeric_min = 0, numeric_max = - 1, numeric_lowest = 0, luma = l \<rparr>"

text \<open>\<open>DBL_MIN\<close> is the least positive normal double, \<open>DBL_MAX\<close> the greatest finite one.\<close>

definition DBL_MIN :: real where
  "DBL_MIN = 1 / 2 ^ 1022"

definition DBL_MAX :: real where
  "DBL_MAX = (2 ^ 53 - 1) * 2 ^ 971"

definition double_type :: "(real \<Rightarrow> real \<Rightarrow> real \<Rightarrow> real) \<Rightarrow> real sample_type" where
  "double_type l =
     \<lparr> sizeof = 8, is_floating_point = True,
       numeric_min = DBL_MIN, numeric_max = DBL_MAX, numeric_lowest = - DBL_MAX, luma = l \<rparr>"

section \<open>Color\<close>

record 'a Color =
  Red :: 'a
  Green :: 'a
  Blue :: 'a
  Alpha :: 'a

text \<open>
  The constructors \<open>Color(red, green, blue, alpha)\<close> and \<open>Color(gray, alpha)\<close>; \<open>alpha\<close>
  defaults to \<open>std::numeric_limits<T>::max()\<close>.
\<close>

definition Color_rgba :: "'a \<Rightarrow> 'a \<Rightarrow> 'a \<Rightarrow> 'a \<Rightarrow> 'a Color" where
  "Color_rgba r g b a = \<lparr> Red = r, Green = g, Blue = b, Alpha = a \<rparr>"

definition Color_rgb :: "'a sample_type \<Rightarrow> 'a \<Rightarrow> 'a \<Rightarrow> 'a \<Rightarrow> 'a Color" where
  "Color_rgb T r g b = Color_rgba r g b (numeric_max T)"

definition Color_gray :: "'a sample_type \<Rightarrow> 'a \<Rightarrow> 'a Color" where
  "Color_gray T gray = Color_rgba gray gray gray (numeric_max T)"

definition Gray :: "'a sample_type \<Rightarrow> 'a Color \<Rightarrow> 'a" where
  "Gray T c =
     (if Red c = Green c \<and> Red c = Blue c then Red c
      else luma T (Red c) (Green c) (Blue c))"

definition IsColored :: "'a Color \<Rightarrow> bool" where
  "IsColored c = (Red c \<noteq> Green c \<or> Red c \<noteq> Blue c)"

text \<open>
  \<open>Color& operator-=(Color rhs)\<close> and \<open>operator+=(Color rhs)\<close>: the built-in \<open>-=\<close> and
  \<open>+=\<close> of \<open>T\<close> on red, green and blue; alpha is not touched.  For \<open>uint8_t\<close> and
  \<open>uint16_t\<close> the operands are promoted to \<open>int\<close> and the result is converted back to
  \<open>T\<close>, which is again the value modulo \<open>2 ^ w\<close>.
\<close>

definition Color_sub_assign :: "'a::minus Color \<Rightarrow> 'a Color \<Rightarrow> 'a Color" where
  "Color_sub_assign c rhs =
     c \<lparr> Red := Red c - Red rhs, Green := Green c - Green rhs, Blue := Blue c - Blue rhs \<rparr>"

definition Color_add_assign :: "'a::plus Color \<Rightarrow> 'a Color \<Rightarrow> 'a Color" where
  "Color_add_assign c rhs =
     c \<lparr> Red := Red c + Red rhs, Green := Green c + Green rhs, Blue := Blue c + Blue rhs \<rparr>"

text \<open>\<open>template <typename T, typename U> bool operator==(Color<T>, Color<U>)\<close> at \<open>T = U\<close>.\<close>

definition Color_eq :: "'a Color \<Rightarrow> 'a Color \<Rightarrow> bool" where
  "Color_eq lhs rhs =
     (Red lhs = Red rhs \<and> Green lhs = Green rhs \<and> Blue lhs = Blue rhs \<and> Alpha lhs = Alpha rhs)"

section \<open>BitmapData\<close>

datatype error =
    UnsupportedChannels int
  | CannotSetAlpha
  | DifferentGeometry

text \<open>
  The buffer is held as the list of its \<open>T\<close> samples (\<open>Size() / sizeof(T)\<close> of them),
  row after row, the channels of a pixel side by side.  An absent channel index is \<open>-1\<close>,
  as in the source.
\<close>

record 'a BitmapData =
  width :: int
  height :: int
  channels :: int
  buffer :: "'a list"
  grayIndex :: int
  alphaIndex :: int
  redIndex :: int
  greenIndex :: int
  blueIndex :: int
  minDisplayedBrightness :: 'a
  maxDisplayedBrightness :: 'a

definition Depth :: "'a sample_type \<Rightarrow> int" where
  "Depth T = sizeof T * (if is_floating_point T then - 1 else 1)"

definition BytesPerPixel :: "'a sample_type \<Rightarrow> 'a BitmapData \<Rightarrow> int" where
  "BytesPerPixel T b = channels b * \<bar>Depth T\<bar>"

definition Stride :: "'a sample_type \<Rightarrow> 'a BitmapData \<Rightarrow> int" where
  "Stride T b = width b * BytesPerPixel T b"

definition Size :: "'a sample_type \<Rightarrow> 'a BitmapData \<Rightarrow> int" where
  "Size T b = height b * Stride T b"

definition Init :: "'a BitmapData \<Rightarrow> error + 'a BitmapData" where
  "Init b =
     (if channels b = 1 then
        Inr (b \<lparr> redIndex := 0, greenIndex := 0, blueIndex := 0, grayIndex := 0 \<rparr>)
      else if channels b = 3 then
        Inr (b \<lparr> redIndex := 0, greenIndex := 1, blueIndex := 2 \<rparr>)
      else if channels b = 4 then
        Inr (b \<lparr> alphaIndex := 0, redIndex := 1, greenIndex := 2, blueIndex := 3 \<rparr>)
      else Inl (UnsupportedChannels (channels b)))"

text \<open>
  The members with their default initialisers: the five indices \<open>-1\<close>,
  \<open>_minDisplayedBrightness{0}\<close> and
  \<open>_maxDisplayedBrightness{std::numeric_limits<T>::max()}\<close>.
\<close>

definition members :: "'a::zero sample_type \<Rightarrow> int \<Rightarrow> int \<Rightarrow> int \<Rightarrow> 'a list \<Rightarrow> 'a BitmapData" where
  "members T w h c buf =
     \<lparr> width = w, height = h, channels = c, buffer = buf,
       grayIndex = - 1, alphaIndex = - 1, redIndex = - 1, greenIndex = - 1, blueIndex = - 1,
       minDisplayedBrightness = 0, maxDisplayedBrightness = numeric_max T \<rparr>"

text \<open>
  \<open>BitmapData(int width, int height, int channels)\<close> allocates \<open>Size()\<close> bytes, which
  are \<open>height * width * channels\<close> samples (zero-initialised, as the specification
  says), and calls \<open>Init\<close>.  \<open>BitmapData(buffer, width, height, channels)\<close> wraps the
  samples it is given.
\<close>

definition BitmapData_new :: "'a::zero sample_type \<Rightarrow> int \<Rightarrow> int \<Rightarrow> int \<Rightarrow> error + 'a BitmapData" where
  "BitmapData_new T w h c = Init (members T w h c (replicate (nat (h * (w * c))) 0))"

definition BitmapData_wrap ::
  "'a::zero sample_type \<Rightarrow> 'a list \<Rightarrow> int \<Rightarrow> int \<Rightarrow> int \<Rightarrow> error + 'a BitmapData" where
  "BitmapData_wrap T buf w h c = Init (members T w h c buf)"

text \<open>
  The comparison operators between \<open>BitmapData<T>\<close> and \<open>BitmapData<U>\<close>.  \<open>operator<\<close>
  multiplies in \<open>double\<close>; the product is taken exactly here.
\<close>

definition operator_eq ::
  "'a sample_type \<Rightarrow> 'a BitmapData \<Rightarrow> 'b sample_type \<Rightarrow> 'b BitmapData \<Rightarrow> bool" where
  "operator_eq T lhs U rhs =
     (width lhs = width rhs \<and> height lhs = height rhs \<and> channels lhs = channels rhs
      \<and> Depth T = Depth U)"

definition operator_ne ::
  "'a sample_type \<Rightarrow> 'a BitmapData \<Rightarrow> 'b sample_type \<Rightarrow> 'b BitmapData \<Rightarrow> bool" where
  "operator_ne T lhs U rhs = (\<not> operator_eq T lhs U rhs)"

definition operator_less ::
  "'a sample_type \<Rightarrow> 'a BitmapData \<Rightarrow> 'b sample_type \<Rightarrow> 'b BitmapData \<Rightarrow> bool" where
  "operator_less T lhs U rhs =
     (width lhs * height lhs * channels lhs * \<bar>Depth T\<bar>
        < width rhs * height rhs * channels rhs * \<bar>Depth U\<bar>)"

definition operator_greater ::
  "'a sample_type \<Rightarrow> 'a BitmapData \<Rightarrow> 'b sample_type \<Rightarrow> 'b BitmapData \<Rightarrow> bool" where
  "operator_greater T lhs U rhs = operator_less U rhs T lhs"

section \<open>Pixel access\<close>

text \<open>
  \<open>Buffer()[k]\<close> and \<open>Buffer()[k] = v\<close>.  An index outside the buffer is undefined
  behaviour in the source; the theorems below speak about containers whose buffer holds
  \<open>height * width * channels\<close> samples and about pixels inside them.
\<close>

definition sample_at :: "'a BitmapData \<Rightarrow> int \<Rightarrow> 'a" where
  "sample_at b k = buffer b ! nat k"

definition store :: "'a BitmapData \<Rightarrow> int \<Rightarrow> 'a \<Rightarrow> 'a BitmapData" where
  "store b k v = b \<lparr> buffer := (buffer b)[nat k := v] \<rparr>"

definition GetRed :: "'a BitmapData \<Rightarrow> int \<Rightarrow> int \<Rightarrow> 'a" where
  "GetRed b x y = sample_at b ((y * width b + x) * channels b + redIndex b)"

definition GetGreen :: "'a BitmapData \<Rightarrow> int \<Rightarrow> int \<Rightarrow> 'a" where
  "GetGreen b x y = sample_at b ((y * width b + x) * channels b + greenIndex b)"

definition GetBlue :: "'a BitmapData \<Rightarrow> int \<Rightarrow> int \<Rightarrow> 'a" where
  "GetBlue b x y = sample_at b ((y * width b + x) * channels b + blueIndex b)"

definition GetAlpha :: "'a sample_type \<Rightarrow> 'a BitmapData \<Rightarrow> int \<Rightarrow> int \<Rightarrow> 'a" where
  "GetAlpha T b x y =
     (if alphaIndex b \<noteq> - 1 then sample_at b ((y * width b + x) * channels b + alphaIndex b)
      else numeric_max T)"

text \<open>
  \<open>GetGray(int, int)\<close> and \<open>Get(int, int)\<close> call each other in the source: \<open>GetGray\<close>
  calls \<open>Get\<close> when there is no gray index, \<open>Get\<close> calls \<open>GetGray\<close> when there is one
  channel.  \<open>Init\<close> gives every one-channel container a gray index, so the call of \<open>Get\<close>
  inside \<open>GetGray\<close> always takes the red/green/blue/alpha branch, which is written out
  in \<open>GetGray\<close>.
\<close>

definition GetGray :: "'a sample_type \<Rightarrow> 'a BitmapData \<Rightarrow> int \<Rightarrow> int \<Rightarrow> 'a" where
  "GetGray T b x y =
     (if grayIndex b \<noteq> - 1 then sample_at b ((y * width b + x) * channels b + grayIndex b)
      else Gray T (Color_rgba (GetRed b x y) (GetGreen b x y) (GetBlue b x y) (GetAlpha T b x y)))"

definition Get :: "'a sample_type \<Rightarrow> 'a BitmapData \<Rightarrow> int \<Rightarrow> int \<Rightarrow> 'a Color" where
  "Get T b x y =
     (if channels b = 1 then Color_gray T (GetGray T b x y)
      else Color_rgba (GetRed b x y) (GetGreen b x y) (GetBlue b x y) (GetAlpha T b x y))"

text \<open>
  \<open>Plot\<close> writes through the buffer pointer and may then throw.  The model returns the
  container as the call leaves it together with the outcome: \<open>Inr True\<close> for the
  returned \<open>true\<close>, \<open>Inl\<close> for the \<open>std::runtime_error\<close>.
\<close>

definition Plot ::
  "'a sample_type \<Rightarrow> 'a BitmapData \<Rightarrow> int \<Rightarrow> int \<Rightarrow> 'a Color \<Rightarrow> 'a BitmapData \<times> (error + bool)" where
  "Plot T b x y color =
     (if x < 0 \<or> y < 0 \<or> x \<ge> width b \<or> y \<ge> height b then (b, Inr True)
      else
        let ptr = (y * width b + x) * channels b;
            b1 = (if grayIndex b \<noteq> - 1 then store b (ptr + grayIndex b) (Gray T color)
                  else store (store (store b (ptr + redIndex b) (Red color))
                                (ptr + greenIndex b) (Green color))
                         (ptr + blueIndex b) (Blue color))
        in if alphaIndex b = - 1 then
             (if Alpha color \<noteq> numeric_max T then (b1, Inl CannotSetAlpha) else (b1, Inr True))
           else (store b1 (ptr + alphaIndex b) (Alpha color), Inr True))"

text \<open>
  \<open>BitmapData& operator-=(const BitmapData& rhs)\<close> and \<open>operator+=\<close>: rows \<open>j\<close> from \<open>0\<close>,
  in each row columns \<open>i\<close> from \<open>0\<close>, \<open>Plot(i, j, Get(i, j) - rhs.Get(i, j))\<close>.  The OpenMP
  loop writes each pixel once and reads only that pixel, so it is run in source order;
  an exception of \<open>Plot\<close> ends the loop.
\<close>

definition pixels :: "'a BitmapData \<Rightarrow> (int \<times> int) list" where
  "pixels b = concat (map (\<lambda>j. map (\<lambda>i. (i, j)) [0 .. width b - 1]) [0 .. height b - 1])"

fun assign_loop ::
  "('a Color \<Rightarrow> 'a Color \<Rightarrow> 'a Color) \<Rightarrow> 'a sample_type \<Rightarrow> 'a BitmapData \<Rightarrow> (int \<times> int) list
     \<Rightarrow> 'a BitmapData \<Rightarrow> 'a BitmapData \<times> (error + unit)" where
  "assign_loop f T rhs [] b = (b, Inr ())"
| "assign_loop f T rhs (p # ps) b =
     (case Plot T b (fst p) (snd p) (f (Get T b (fst p) (snd p)) (Get T rhs (fst p) (snd p))) of
        (b', Inl e) \<Rightarrow> (b', Inl e)
      | (b', Inr ok) \<Rightarrow> assign_loop f T rhs ps b')"

definition operator_sub_assign ::
  "'a::minus sample_type \<Rightarrow> 'a BitmapData \<Rightarrow> 'a BitmapData \<Rightarrow> 'a BitmapData \<times> (error + unit)" where
  "operator_sub_assign T b rhs = assign_loop Color_sub_assign T rhs (pixels b) b"

definition operator_add_assign ::
  "'a::plus sample_type \<Rightarrow> 'a BitmapData \<Rightarrow> 'a BitmapData \<Rightarrow> 'a BitmapData \<times> (error + unit)" where
  "operator_add_assign T b rhs = assign_loop Color_add_assign T rhs (pixels b) b"

text \<open>
  What the constructors establish and every operation above keeps: non-negative
  extent, one of the three channel layouts of \<open>Init\<close>, and a buffer of
  \<open>height * width * channels\<close> samples.
\<close>

definition layout :: "'a BitmapData \<Rightarrow> bool" where
  "layout b =
     ((channels b = 1 \<and> grayIndex b = 0 \<and> alphaIndex b = - 1
         \<and> redIndex b = 0 \<and> greenIndex b = 0 \<and> blueIndex b = 0)
      \<or> (channels b = 3 \<and> grayIndex b = - 1 \<and> alphaIndex b = - 1
         \<and> redIndex b = 0 \<and> greenIndex b = 1 \<and> blueIndex b = 2)
      \<or> (channels b = 4 \<and> grayIndex b = - 1 \<and> alphaIndex b = 0
         \<and> redIndex b = 1 \<and> greenIndex b = 2 \<and> blueIndex b = 3))"

definition well_formed :: "'a BitmapData \<Rightarrow> bool" where
  "well_formed b =
     (0 \<le> width b \<and> 0 \<le> height b \<and> layout b
      \<and> int (length (buffer b)) = height b * (width b * channels b))"

definition inside :: "'a BitmapData \<Rightarrow> int \<Rightarrow> int \<Rightarrow> bool" where
  "inside b x y = (0 \<le> x \<and> 0 \<le> y \<and> x < width b \<and> y < height b)"

text \<open>
  The colors a container stores without loss: \<open>Get\<close> returns such a color for every
  pixel, and \<open>Plot\<close> followed by \<open>Get\<close> gives it back.  A one-channel container keeps
  one value for red, green and blue and has no alpha; a three-channel one has no alpha.
\<close>

definition representable :: "'a sample_type \<Rightarrow> 'a BitmapData \<Rightarrow> 'a Color \<Rightarrow> bool" where
  "representable T b c =
     ((channels b = 1 \<and> Red c = Green c \<and> Red c = Blue c \<and> Alpha c = numeric_max T)
      \<or> (channels b = 3 \<and> Alpha c = numeric_max T)
      \<or> channels b = 4)"

text \<open>A two-pixel gray \<open>uint8_t\<close> container, for the worked examples.\<close>

definition gray_2x1 :: "8 word \<Rightarrow> 8 word \<Rightarrow> 8 word BitmapData" where
  "gray_2x1 u v =
     \<lparr> width = 2, height = 1, channels = 1, buffer = [u, v],
       grayIndex = 0, alphaIndex = - 1, redIndex = 0, greenIndex = 0, blueIndex = 0,
       minDisplayedBrightness = 0, maxDisplayedBrightness = 255 \<rparr>"

section \<open>Interpolation\<close>

text \<open>
  \<open>interpolation::Do<T>(dx, dy, min_x, min_y, max_x, max_y, Get)\<close>.  The value type \<open>T\<close>
  is any type with a \<open>Mix\<close> method (\<open>Color\<close>, \<open>MixableScalar\<close>, \<open>Vector\<close>); \<open>Mix\<close> is a
  parameter of the model.  The function returns the interpolated value together with
  the lattice points at which it called the sampler (the parameter \<open>Get\<close> of the
  source, \<open>getter\<close> here), in the order of the calls.

  The coordinates are finite doubles, read as reals.  \<open>std::min\<close>, \<open>std::max\<close> and
  \<open>std::floor\<close> are exact on doubles, and a double difference has the sign of the exact
  difference, so the branches taken are those of the real computation; the weights
  handed to \<open>Mix\<close> are written in real arithmetic.
\<close>

definition Do ::
  "('v \<Rightarrow> (real \<times> 'v) list \<Rightarrow> 'v) \<Rightarrow> real \<Rightarrow> real \<Rightarrow> real \<Rightarrow> real \<Rightarrow> real \<Rightarrow> real
     \<Rightarrow> (int \<Rightarrow> int \<Rightarrow> 'v) \<Rightarrow> 'v \<times> (int \<times> int) list" where
  "Do Mix dx dy min_x min_y max_x max_y getter =
     (let ix = \<lfloor>max min_x (min max_x dx)\<rfloor>;
          iy = \<lfloor>max min_y (min max_y dy)\<rfloor>;
          x = dx - of_int ix;
          y = dy - of_int iy
      in if x \<le> 0 \<or> of_int (ix + 1) > max_x then
           (if y \<le> 0 \<or> of_int (iy + 1) > max_y then (getter ix iy, [(ix, iy)])
            else
              let a = getter ix iy;
                  c = getter ix (iy + 1)
              in (Mix a [(y, c)], [(ix, iy), (ix, iy + 1)]))
         else if y \<le> 0 \<or> of_int (iy + 1) > max_y then
           (let a = getter ix iy;
                b = getter (ix + 1) iy
            in (Mix a [(x, b)], [(ix, iy), (ix + 1, iy)]))
         else
           (let x_neg = 1 - x;
                y_neg = 1 - y;
                da = sqrt (x * x + y * y);
                dc = sqrt (x * x + y_neg * y_neg);
                db = sqrt (x_neg * x_neg + y * y);
                dd = sqrt (x_neg * x_neg + y_neg * y_neg);
                dab = sqrt (y * y);
                dcd = sqrt (y_neg * y_neg);
                dac = sqrt (x * x);
                dbd = sqrt (x_neg * x_neg);
                ci = max 0 (1 - dc);
                bi = max 0 (1 - db);
                ai = max 0 (1 - da);
                di = max 0 (1 - dd);
                abi = max 0 (1 - dab);
                cdi = max 0 (1 - dcd);
                aci = max 0 (1 - dac);
                bdi = max 0 (1 - dbd);
                t = ai + bi + ci + di;
                s = abi + cdi + aci + bdi;
                a = getter ix iy;
                b = getter (ix + 1) iy;
                c = getter ix (iy + 1);
                d = getter (ix + 1) (iy + 1);
                ab = (if x = 0 then a else Mix a [(x, b)]);
                cd = (if x = 0 then c else Mix c [(x, d)]);
                ac = (if y = 0 then a else Mix a [(y, c)]);
                bd = (if y = 0 then b else Mix b [(y, d)]);
                col1 = (if s = 0 then Mix ab [(0.25, cd), (0.25, ac), (0.25, bd)]
                        else Mix ab [(cdi / s, cd), (aci / s, ac), (bdi / s, bd)]);
                col2 = (if t = 0 then Mix a [(0.25, b), (0.25, c), (0.25, d)]
                        else Mix a [(bi / t, b), (ci / t, c), (di / t, d)]);
                weight = 2 * min (min (min dab dcd) dac) dbd
            in (Mix col1 [(weight, col2)],
                [(ix, iy), (ix + 1, iy), (ix, iy + 1), (ix + 1, iy + 1)])))"

text \<open>
  The fractional overload \<open>Get(double dx, double dy)\<close> of \<open>BitmapData\<close>: the container
  is the sampler and the bounds are \<open>0.0, 0.0, Width() - 1.0, Height() - 1.0\<close>.
\<close>

definition Get_fractional ::
  "('a Color \<Rightarrow> (real \<times> 'a Color) list \<Rightarrow> 'a Color) \<Rightarrow> 'a sample_type \<Rightarrow> 'a BitmapData
     \<Rightarrow> real \<Rightarrow> real \<Rightarrow> 'a Color \<times> (int \<times> int) list" where
  "Get_fractional Mix T b dx dy =
     Do Mix dx dy 0 0 (of_int (width b) - 1) (of_int (height b) - 1) (Get T b)"

section \<open>Line drawing\<close>








section \<open>Region statistics\<close>

text \<open>
  \<open>MaxGray\<close> and \<open>MinGray\<close> for an unsigned sample type, called with every output
  pointer but \<open>stdDeviation\<close> given (\<open>stdDeviation = nullptr\<close>).  A position output
  (\<open>brightestX\<close>, \<open>brightestY\<close> and so on) is \<open>None\<close> as long as the function has not
  written it.  The rows are scanned in source order, which is the execution of the
  \<open>omp parallel for\<close> over the rows by one thread (the source adds to \<open>sum\<close> outside the
  lock that guards the extremum).  \<open>sum\<close> is a \<open>long double\<close>; the model keeps the
  integer sum, which the \<open>long double\<close> holds exactly as long as the sum fits its
  significand (64 bits on x86-64).

  \<open>(T)((sum + 1) / count)\<close> divides in \<open>long double\<close> and truncates towards zero; the
  model truncates the exact quotient, which is the same value as long as
  \<open>sum + count\<close> is below \<open>2^64\<close>.
  The conversion is undefined when \<open>count\<close> is \<open>0\<close> or the truncated quotient is not a
  value of \<open>T\<close>; the stored average is then \<open>None\<close>.
\<close>

definition truncated_quotient :: "int \<Rightarrow> int \<Rightarrow> int" where
  "truncated_quotient a b =
     (if (a < 0) = (b < 0) then \<bar>a\<bar> div \<bar>b\<bar> else - (\<bar>a\<bar> div \<bar>b\<bar>))"

definition stored_average :: "'w::len word sample_type \<Rightarrow> int \<Rightarrow> int \<Rightarrow> 'w word option" where
  "stored_average T s count =
     (if count = 0 then None
      else
        let q = truncated_quotient (s + 1) count
        in if 0 \<le> q \<and> q \<le> uint (numeric_max T) then Some (word_of_int q) else None)"

definition scan_region :: "int \<Rightarrow> int \<Rightarrow> int \<Rightarrow> int \<Rightarrow> (int \<times> int) list" where
  "scan_region x0 y0 x1 y1 = concat (map (\<lambda>y. map (\<lambda>x. (x, y)) [x0 .. x1]) [y0 .. y1])"

record 'a MaxGray_vars =
  var_max :: 'a
  var_max2 :: 'a
  var_min :: 'a
  var_sum :: int
  brightest :: "(int \<times> int) option"
  secondBrightest :: "(int \<times> int) option"
  darkest :: "(int \<times> int) option"

definition MaxGray_body ::
  "'w::len word sample_type \<Rightarrow> 'w word BitmapData \<Rightarrow> 'w word MaxGray_vars \<Rightarrow> int \<times> int
     \<Rightarrow> 'w word MaxGray_vars" where
  "MaxGray_body T b v p =
     (let x = fst p;
          y = snd p;
          current = GetGray T b x y;
          v1 = v \<lparr> var_sum := var_sum v + uint current \<rparr>;
          v2 = (if current > var_max v1 then
                  (let v' = (if var_max v1 > var_max2 v1
                             then v1 \<lparr> var_max2 := var_max v1, secondBrightest := brightest v1 \<rparr>
                             else v1)
                   in v' \<lparr> var_max := current, brightest := Some (x, y) \<rparr>)
                else if current > var_max2 v1 then
                  v1 \<lparr> var_max2 := current, secondBrightest := Some (x, y) \<rparr>
                else v1)
      in if current < var_min v2 then v2 \<lparr> var_min := current, darkest := Some (x, y) \<rparr>
         else v2)"

record 'a MaxGray_result =
  returned_max :: 'a
  average :: "'a option"
  secondMax :: 'a
  darkestValue :: 'a
  brightestXY :: "(int \<times> int) option"
  secondBrightestXY :: "(int \<times> int) option"
  darkestXY :: "(int \<times> int) option"

definition MaxGray ::
  "'w::len word sample_type \<Rightarrow> 'w word BitmapData \<Rightarrow> int \<Rightarrow> int \<Rightarrow> int \<Rightarrow> int
     \<Rightarrow> 'w word MaxGray_result" where
  "MaxGray T b x0 y0 x1 y1 =
     (let x0 = max 0 x0;
          y0 = max 0 y0;
          x1 = min (width b - 1) x1;
          y1 = min (height b - 1) y1;
          v = foldl (MaxGray_body T b)
                \<lparr> var_max = 0, var_max2 = 0, var_min = numeric_max T, var_sum = 0,
                  brightest = None, secondBrightest = None, darkest = None \<rparr>
                (scan_region x0 y0 x1 y1)
      in \<lparr> returned_max = var_max v,
           average = stored_average T (var_sum v) ((x1 - x0 + 1) * (y1 - y0 + 1)),
           secondMax = var_max2 v,
           darkestValue = var_min v,
           brightestXY = brightest v,
           secondBrightestXY = secondBrightest v,
           darkestXY = darkest v \<rparr>)"

record 'a MinGray_vars =
  mvar_min :: 'a
  mvar_min2 :: 'a
  mvar_sum :: int
  mdarkest :: "(int \<times> int) option"
  msecondDarkest :: "(int \<times> int) option"

definition MinGray_body ::
  "'w::len word sample_type \<Rightarrow> 'w word BitmapData \<Rightarrow> 'w word MinGray_vars \<Rightarrow> int \<times> int
     \<Rightarrow> 'w word MinGray_vars" where
  "MinGray_body T b v p =
     (let x = fst p;
          y = snd p;
          current = GetGray T b x y;
          v1 = v \<lparr> mvar_sum := mvar_sum v + uint current \<rparr>
      in if current < mvar_min v1 then
           (let v' = (if mvar_min v1 < mvar_min2 v1
                      then v1 \<lparr> mvar_min2 := mvar_min v1, msecondDarkest := mdarkest v1 \<rparr>
                      else v1)
            in v' \<lparr> mvar_min := current, mdarkest := Some (x, y) \<rparr>)
         else if current < mvar_min2 v1 then
           v1 \<lparr> mvar_min2 := current, msecondDarkest := Some (x, y) \<rparr>
         else v1)"

record 'a MinGray_result =
  returned_min :: 'a
  min_average :: "'a option"
  secondMin :: 'a
  min_darkestXY :: "(int \<times> int) option"
  secondDarkestXY :: "(int \<times> int) option"

definition MinGray ::
  "'w::len word sample_type \<Rightarrow> 'w word BitmapData \<Rightarrow> int \<Rightarrow> int \<Rightarrow> int \<Rightarrow> int
     \<Rightarrow> 'w word MinGray_result" where
  "MinGray T b x0 y0 x1 y1 =
     (let x0 = max 0 x0;
          y0 = max 0 y0;
          x1 = min (width b - 1) x1;
          y1 = min (height b - 1) y1;
          v = foldl (MinGray_body T b)
                \<lparr> mvar_min = numeric_max T, mvar_min2 = numeric_max T, mvar_sum = 0,
                  mdarkest = None, msecondDarkest = None \<rparr>
                (scan_region x0 y0 x1 y1)
      in \<lparr> returned_min = mvar_min v,
           min_average = stored_average T (mvar_sum v) ((x1 - x0 + 1) * (y1 - y0 + 1)),
           secondMin = mvar_min2 v,
           min_darkestXY = mdarkest v,
           secondDarkestXY = msecondDarkest v \<rparr>)"

text \<open>
  The arithmetic mean of the gray values of a region, converted to \<open>T\<close> the way the
  source converts (truncation): what claim C4 says \<open>MaxGray\<close> and \<open>MinGray\<close> store.
\<close>

definition region_sum :: "'w::len word sample_type \<Rightarrow> 'w word BitmapData \<Rightarrow> (int \<times> int) list \<Rightarrow> int" where
  "region_sum T b ps = sum_list (map (\<lambda>p. uint (GetGray T b (fst p) (snd p))) ps)"

definition arithmetic_mean :: "'w::len word sample_type \<Rightarrow> 'w word BitmapData \<Rightarrow> (int \<times> int) list \<Rightarrow> 'w word" where
  "arithmetic_mean T b ps = word_of_int (region_sum T b ps div int (length ps))"

section \<open>Display conversion of one sample\<close>

text \<open>
  \<open>uint8_t CalculateDisplayValue(T val) const\<close>.  The global \<open>_currentGamma\<close>, which
  \<open>ConvertToDepth8\<close> sets through \<open>FillGammaTable\<close>, is the parameter \<open>currentGamma\<close>.

  The function computes in \<open>double\<close>.  Finite doubles are read as reals.  An operation
  rounds its exact result with \<open>rnd\<close>, the rounding to a double, which is a parameter of
  the model (\<open>round_to_nearest\<close> below collects what the theorems need to know of it),
  unless the exact result is at or beyond \<open>2^1024 - 2^970\<close>, where round-to-nearest
  overflows to an infinity.  \<open>std::lround\<close> leaves its result unspecified for an
  infinity, a NaN and a value outside \<open>long\<close> (64 bits here).  The functions below
  return \<open>None\<close> where the value handed to \<open>std::lround\<close> is one of these.
\<close>

definition overflow_threshold :: real where
  "overflow_threshold = 2 ^ 1024 - 2 ^ 970"

definition fl :: "(real \<Rightarrow> real) \<Rightarrow> real \<Rightarrow> real option" where
  "fl rnd x = (if \<bar>x\<bar> < overflow_threshold then Some (rnd x) else None)"

definition fdiv :: "(real \<Rightarrow> real) \<Rightarrow> real \<Rightarrow> real \<Rightarrow> real option" where
  "fdiv rnd x y = (if y = 0 then None else fl rnd (x / y))"

definition lround :: "real \<Rightarrow> int" where
  "lround x = (if 0 \<le> x then \<lfloor>x + 1 / 2\<rfloor> else - \<lfloor>- x + 1 / 2\<rfloor>)"

definition lround_long :: "real \<Rightarrow> int option" where
  "lround_long x = (if - (2 ^ 63) \<le> lround x \<and> lround x < 2 ^ 63 then Some (lround x) else None)"

definition to_uint8 :: "int \<Rightarrow> 8 word" where
  "to_uint8 n = word_of_int (max 0 (min 255 n))"

text \<open>
  The body of \<open>CalculateDisplayValue\<close> from \<open>val0\<close> on, as a function of the four
  quantities it takes from \<open>T\<close>: \<open>dval = (double)val\<close> of the clamped sample,
  \<open>ddiff = (double)diff\<close>, \<open>drange = (double)(_maxDisplayedBrightness -
  _minDisplayedBrightness)\<close> (\<open>None\<close> for an infinity, by which a finite number divides
  to zero) and \<open>z = (long double)_maxDisplayedBrightness - _minDisplayedBrightness\<close>.

  \<open>factor\<close> is used only when \<open>result > 0\<close>.  \<open>log(0)\<close> is \<open>-inf\<close>, which makes \<open>result\<close>
  \<open>-inf\<close> and \<open>val1\<close> zero; the logarithm of a negative number is a NaN, which reaches
  \<open>t\<close>; \<open>log1p(-1)\<close> is \<open>-inf\<close>, which makes \<open>factor\<close> and \<open>val1\<close> zero.  The
  \<open>long double\<close> expression under the cast in \<open>factor\<close> is rounded once.
\<close>

definition display_value ::
  "(real \<Rightarrow> real) \<Rightarrow> real \<Rightarrow> real \<Rightarrow> real \<Rightarrow> real option \<Rightarrow> real \<Rightarrow> 8 word option" where
  "display_value rnd currentGamma dval ddiff drange z =
     do {
       n \<leftarrow> fl rnd (255 * ddiff);
       val0 \<leftarrow> (case drange of None \<Rightarrow> Some 0 | Some r \<Rightarrow> fdiv rnd n r);
       if currentGamma = 0 then map_option to_uint8 (lround_long val0)
       else do {
         g \<leftarrow> fl rnd (currentGamma * 2);
         let gamma1 = (if g > 1 then 1 else g);
         c \<leftarrow> fl rnd (currentGamma * 6);
         delta \<leftarrow> fl rnd (9 - c);
         let log2 = rnd (ln 2);
         val1 \<leftarrow>
           (if dval < 0 then None
            else if dval = 0 then Some 0
            else do {
              q \<leftarrow> fdiv rnd (rnd (ln dval)) log2;
              result \<leftarrow> fl rnd (q - delta);
              if result \<le> 0 then Some 0
              else if z < - 1 then None
              else if z = - 1 then Some 0
              else do {
                denom \<leftarrow> fl rnd (ln (1 + z) / log2 - delta);
                factor \<leftarrow> fdiv rnd 256 denom;
                fl rnd (result * factor)
              }
            });
         p \<leftarrow> fl rnd (gamma1 * val1);
         w \<leftarrow> fl rnd (1 - gamma1);
         l \<leftarrow> fl rnd (w * val0);
         t \<leftarrow> fl rnd (p + l);
         map_option to_uint8 (lround_long t)
       }
     }"

text \<open>
  The instance for an unsigned sample type.  \<open>_maxDisplayedBrightness -
  _minDisplayedBrightness\<close> is computed in \<open>int\<close> for \<open>uint8_t\<close> and \<open>uint16_t\<close> (integer
  promotion) and in \<open>T\<close>, wrapping, for \<open>uint32_t\<close> and \<open>uint64_t\<close>.  The conversion
  of an unsigned value of at most 64 bits to \<open>double\<close> does not overflow.
\<close>

definition promoted_difference :: "'w::len word \<Rightarrow> 'w word \<Rightarrow> int" where
  "promoted_difference a b =
     (if LENGTH('w) < 32 then uint a - uint b else uint (a - b))"

definition CalculateDisplayValue ::
  "(real \<Rightarrow> real) \<Rightarrow> real \<Rightarrow> 'w::len word BitmapData \<Rightarrow> 'w word \<Rightarrow> 8 word option" where
  "CalculateDisplayValue rnd currentGamma b v =
     (let lo = minDisplayedBrightness b;
          hi = maxDisplayedBrightness b;
          val = min (max v lo) hi;
          diff = (if val \<ge> lo then val - lo else 0)
      in display_value rnd currentGamma
           (rnd (real (unat val))) (rnd (real (unat diff)))
           (Some (rnd (real_of_int (promoted_difference hi lo))))
           (real_of_int (uint hi - uint lo)))"

text \<open>
  The instance for \<open>double\<close>, on finite samples and a finite window: \<open>val - lo\<close> and
  \<open>hi - lo\<close> are double subtractions and can overflow.
\<close>

definition CalculateDisplayValue_double ::
  "(real \<Rightarrow> real) \<Rightarrow> real \<Rightarrow> real BitmapData \<Rightarrow> real \<Rightarrow> 8 word option" where
  "CalculateDisplayValue_double rnd currentGamma b v =
     (let lo = minDisplayedBrightness b;
          hi = maxDisplayedBrightness b;
          val = min (max v lo) hi
      in do {
           diff \<leftarrow> (if val \<ge> lo then fl rnd (val - lo) else Some 0);
           display_value rnd currentGamma val diff (fl rnd (hi - lo)) (hi - lo)
         })"

text \<open>
  Rounding to the nearest double: monotone, exact at \<open>0\<close>, and with relative error at
  most \<open>2^-53\<close> on \<open>[1, 2^80]\<close>, a range without overflow or underflow that holds
  every value the linear path computes for unsigned samples of at most 64 bits.
\<close>

definition round_to_nearest :: "(real \<Rightarrow> real) \<Rightarrow> bool" where
  "round_to_nearest rnd =
     ((\<forall>x y. x \<le> y \<longrightarrow> rnd x \<le> rnd y) \<and> rnd 0 = 0
      \<and> (\<forall>x. 1 \<le> x \<and> x \<le> 2 ^ 80 \<longrightarrow> \<bar>rnd x - x\<bar> \<le> x / 2 ^ 53))"

section \<open>Index arithmetic\<close>

text \<open>Sample \<open>k\<close> of pixel \<open>(x, y)\<close> sits at \<open>(y * width + x) * channels + k\<close>.\<close>

lemma lin_inj:
  fixes p q k l c :: int
  assumes "0 \<le> k" "k < c" "0 \<le> l" "l < c" "p * c + k = q * c + l"
  shows "p = q \<and> k = l"
proof -
  have c: "0 < c" using assms(1,2) by linarith
  have dp: "(p * c + k) div c = p" using assms(1,2) c by simp
  have dq: "(q * c + l) div c = q" using assms(3,4) c by simp
  have "(p * c + k) div c = (q * c + l) div c" by (simp only: assms(5))
  then have "p = q" by (simp only: dp dq)
  then show ?thesis using assms(5) by simp
qed

lemma idx_less:
  fixes x y w h c k :: int
  assumes "0 \<le> x" "x < w" "0 \<le> y" "y < h" "0 \<le> k" "k < c"
  shows "(y * w + x) * c + k < h * (w * c)"
proof -
  have "y * w \<le> (h - 1) * w" using assms by (intro mult_right_mono) auto
  then have "y * w + x + 1 \<le> h * w" using assms by (simp add: algebra_simps)
  then have "(y * w + x + 1) * c \<le> (h * w) * c" using assms by (intro mult_right_mono) auto
  then show ?thesis using assms by (simp add: algebra_simps)
qed

lemma idx_neq:
  fixes x y x' y' w c k k' :: int
  assumes "0 \<le> x" "x < w" "0 \<le> x'" "x' < w" "0 \<le> y" "0 \<le> y'"
    "0 \<le> k" "k < c" "0 \<le> k'" "k' < c" "x \<noteq> x' \<or> y \<noteq> y'"
  shows "nat ((y * w + x) * c + k) \<noteq> nat ((y' * w + x') * c + k')"
proof
  assume e: "nat ((y * w + x) * c + k) = nat ((y' * w + x') * c + k')"
  have "0 \<le> (y * w + x) * c + k" "0 \<le> (y' * w + x') * c + k'" using assms by auto
  with e have "(y * w + x) * c + k = (y' * w + x') * c + k'" by linarith
  from lin_inj[OF assms(7,8,9,10) this] have "y * w + x = y' * w + x'" by simp
  from lin_inj[OF assms(1,2,3,4) this] show False using assms(11) by simp
qed

section \<open>Plot and Get\<close>

text \<open>The example container is what the wrapping constructor builds from two samples.\<close>

lemma gray_2x1_constructed:
  "BitmapData_wrap (unsigned_type l) [u, v] 2 1 1 = Inr (gray_2x1 u v)"
  "well_formed (gray_2x1 u v)"
  by (simp_all add: BitmapData_wrap_def Init_def members_def unsigned_type_def gray_2x1_def
      well_formed_def layout_def)

lemma store_fields:
  "width (store b i v) = width b" "height (store b i v) = height b"
  "channels (store b i v) = channels b" "grayIndex (store b i v) = grayIndex b"
  "alphaIndex (store b i v) = alphaIndex b" "redIndex (store b i v) = redIndex b"
  "greenIndex (store b i v) = greenIndex b" "blueIndex (store b i v) = blueIndex b"
  "minDisplayedBrightness (store b i v) = minDisplayedBrightness b"
  "maxDisplayedBrightness (store b i v) = maxDisplayedBrightness b"
  "length (buffer (store b i v)) = length (buffer b)"
  by (simp_all add: store_def)

lemma sample_at_store_other:
  "0 \<le> i \<Longrightarrow> 0 \<le> j \<Longrightarrow> i \<noteq> j \<Longrightarrow> sample_at (store b i v) j = sample_at b j"
  by (simp add: sample_at_def store_def)

lemma sample_at_store_same:
  "0 \<le> i \<Longrightarrow> i < int (length (buffer b)) \<Longrightarrow> sample_at (store b i v) i = v"
  by (simp add: sample_at_def store_def)

lemma Plot_header:
  "width (fst (Plot T b x y c)) = width b \<and> height (fst (Plot T b x y c)) = height b
   \<and> channels (fst (Plot T b x y c)) = channels b
   \<and> grayIndex (fst (Plot T b x y c)) = grayIndex b
   \<and> alphaIndex (fst (Plot T b x y c)) = alphaIndex b
   \<and> redIndex (fst (Plot T b x y c)) = redIndex b
   \<and> greenIndex (fst (Plot T b x y c)) = greenIndex b
   \<and> blueIndex (fst (Plot T b x y c)) = blueIndex b
   \<and> minDisplayedBrightness (fst (Plot T b x y c)) = minDisplayedBrightness b
   \<and> maxDisplayedBrightness (fst (Plot T b x y c)) = maxDisplayedBrightness b
   \<and> length (buffer (fst (Plot T b x y c))) = length (buffer b)"
  by (simp add: Plot_def store_fields Let_def)

lemma Plot_well_formed: "well_formed b \<Longrightarrow> well_formed (fst (Plot T b x y c))"
  by (simp add: well_formed_def layout_def Plot_header)

lemma Plot_inside: "inside (fst (Plot T b x y c)) x' y' = inside b x' y'"
  by (simp add: inside_def Plot_header)

lemma Plot_outside: "\<not> inside b x y \<Longrightarrow> Plot T b x y c = (b, Inr True)"
  by (auto simp: Plot_def inside_def)

lemma layout_cases:
  assumes "layout b"
  obtains (gray) "channels b = 1" "grayIndex b = 0" "alphaIndex b = - 1"
      "redIndex b = 0" "greenIndex b = 0" "blueIndex b = 0"
    | (rgb) "channels b = 3" "grayIndex b = - 1" "alphaIndex b = - 1"
      "redIndex b = 0" "greenIndex b = 1" "blueIndex b = 2"
    | (rgba) "channels b = 4" "grayIndex b = - 1" "alphaIndex b = 0"
      "redIndex b = 1" "greenIndex b = 2" "blueIndex b = 3"
  using assms unfolding layout_def by blast

lemma pixel_neq:
  fixes x y x' y' w :: int
  assumes "0 \<le> x" "x < w" "0 \<le> x'" "x' < w" "x \<noteq> x' \<or> y \<noteq> y'"
  shows "y * w + x \<noteq> y' * w + x'"
  using lin_inj[OF assms(1,2,3,4)] assms(5) by blast

lemma Plot_Get_other:
  assumes wf: "well_formed b" and q: "inside b x' y'" and ne: "x \<noteq> x' \<or> y \<noteq> y'"
  shows "Get T (fst (Plot T b x y c)) x' y' = Get T b x' y'"
proof (cases "inside b x y")
  case False
  then show ?thesis by (simp add: Plot_outside)
next
  case True
  define p where "p = y * width b + x"
  define p' where "p' = y' * width b + x'"
  have pp: "p \<noteq> p'" unfolding p_def p'_def
    using True q ne by (intro pixel_neq) (auto simp: inside_def)
  have p0: "0 \<le> p" "0 \<le> p'" using True q wf by (auto simp: p_def p'_def inside_def well_formed_def)
  have io: "\<not> (x < 0 \<or> y < 0 \<or> width b \<le> x \<or> height b \<le> y)"
    using True by (auto simp: inside_def)
  from wf have "layout b" by (simp add: well_formed_def)
  then show ?thesis
  proof (cases rule: layout_cases)
    case gray
    with io pp p0 show ?thesis
      by (simp add: Plot_def Let_def Get_def GetGray_def store_fields sample_at_store_other
          flip: p_def p'_def)
  next
    case rgb
    with io pp p0 show ?thesis
      by (simp add: Plot_def Let_def Get_def GetRed_def GetGreen_def GetBlue_def GetAlpha_def
          store_fields sample_at_store_other flip: p_def p'_def)
  next
    case rgba
    with io pp p0 show ?thesis
      by (simp add: Plot_def Let_def Get_def GetRed_def GetGreen_def GetBlue_def GetAlpha_def
          store_fields sample_at_store_other flip: p_def p'_def)
  qed
qed

lemma Get_representable: "layout b \<Longrightarrow> representable T b (Get T b x y)"
  by (erule layout_cases)
     (simp_all add: representable_def Get_def Color_gray_def Color_rgba_def GetAlpha_def)

lemma Plot_Get_same:
  assumes wf: "well_formed b" and p: "inside b x y" and r: "representable T b c"
  shows "snd (Plot T b x y c) = Inr True \<and> Get T (fst (Plot T b x y c)) x y = c"
proof -
  define p where "p = y * width b + x"
  have io: "\<not> (x < 0 \<or> y < 0 \<or> width b \<le> x \<or> height b \<le> y)"
    using p by (auto simp: inside_def)
  have p0: "0 \<le> p" using p wf by (auto simp: p_def inside_def well_formed_def)
  have len: "\<And>k. 0 \<le> k \<Longrightarrow> k < channels b \<Longrightarrow> p * channels b + k < int (length (buffer b))"
    using p wf unfolding p_def well_formed_def inside_def by (auto intro: idx_less)
  from wf have "layout b" by (simp add: well_formed_def)
  then show ?thesis
  proof (cases rule: layout_cases)
    case gray
    with r have c: "Red c = Green c" "Red c = Blue c" "Alpha c = numeric_max T"
      by (auto simp: representable_def)
    from len[of 0] gray have "p < int (length (buffer b))" by simp
    with gray io p0 c show ?thesis
      by (simp add: Plot_def Let_def Get_def GetGray_def store_fields sample_at_store_same
          Gray_def Color_gray_def Color_rgba_def flip: p_def)
  next
    case rgb
    with r have c: "Alpha c = numeric_max T" by (auto simp: representable_def)
    from len[of 0] len[of 1] len[of 2] rgb
    have l: "p * 3 < int (length (buffer b))" "p * 3 + 1 < int (length (buffer b))"
      "p * 3 + 2 < int (length (buffer b))" by simp_all
    with rgb io p0 c show ?thesis
      by (simp add: Plot_def Let_def Get_def GetRed_def GetGreen_def GetBlue_def GetAlpha_def
          store_fields sample_at_store_same sample_at_store_other Color_rgba_def flip: p_def)
  next
    case rgba
    from len[of 0] len[of 1] len[of 2] len[of 3] rgba
    have l: "p * 4 < int (length (buffer b))" "p * 4 + 1 < int (length (buffer b))"
      "p * 4 + 2 < int (length (buffer b))" "p * 4 + 3 < int (length (buffer b))" by simp_all
    with rgba io p0 show ?thesis
      by (simp add: Plot_def Let_def Get_def GetRed_def GetGreen_def GetBlue_def GetAlpha_def
          store_fields sample_at_store_same sample_at_store_other Color_rgba_def flip: p_def)
  qed
qed

section \<open>The whole-buffer loops\<close>

lemma set_pixels: "set (pixels b) = {(x, y). inside b x y}"
  by (auto simp: pixels_def inside_def)

lemma distinct_grid:
  "distinct is \<Longrightarrow> distinct js \<Longrightarrow> distinct (concat (map (\<lambda>j. map (\<lambda>i. (i, j)) is) js))"
  by (induction js) (auto simp: distinct_map inj_on_def)

lemma distinct_pixels: "distinct (pixels b)"
  unfolding pixels_def by (rule distinct_grid) simp_all

lemma representable_header:
  "channels b' = channels b \<Longrightarrow> representable T b' c = representable T b c"
  by (simp add: representable_def)

lemma assign_loop_correct:
  assumes "well_formed b" "distinct ps" "\<forall>p \<in> set ps. inside b (fst p) (snd p)"
    "\<forall>p \<in> set ps. representable T b (f (Get T b (fst p) (snd p)) (Get T rhs (fst p) (snd p)))"
  shows "\<exists>b'. assign_loop f T rhs ps b = (b', Inr ()) \<and> well_formed b'
      \<and> width b' = width b \<and> height b' = height b \<and> channels b' = channels b
      \<and> (\<forall>x y. inside b x y \<longrightarrow>
            Get T b' x y = (if (x, y) \<in> set ps then f (Get T b x y) (Get T rhs x y)
                            else Get T b x y))"
  using assms
proof (induction ps arbitrary: b)
  case Nil
  then show ?case by simp
next
  case (Cons p ps)
  define c where "c = f (Get T b (fst p) (snd p)) (Get T rhs (fst p) (snd p))"
  define b1 where "b1 = fst (Plot T b (fst p) (snd p) c)"
  have pin: "inside b (fst p) (snd p)" and rc: "representable T b c"
    using Cons.prems by (simp_all add: c_def)
  from Plot_Get_same[OF Cons.prems(1) pin rc]
  have ok: "snd (Plot T b (fst p) (snd p) c) = Inr True" and same: "Get T b1 (fst p) (snd p) = c"
    by (simp_all add: b1_def)
  have pl: "Plot T b (fst p) (snd p) c = (b1, Inr True)"
    using ok by (simp add: b1_def prod_eq_iff)
  have hd: "width b1 = width b" "height b1 = height b" "channels b1 = channels b"
    by (simp_all add: b1_def Plot_header)
  have wf1: "well_formed b1" using Cons.prems(1) by (simp add: b1_def Plot_well_formed)
  have ins: "\<And>x y. inside b1 x y = inside b x y" by (simp add: b1_def Plot_inside)
  have other: "\<And>x y. inside b x y \<Longrightarrow> (x, y) \<noteq> p \<Longrightarrow> Get T b1 x y = Get T b x y"
    unfolding b1_def using Cons.prems(1) by (intro Plot_Get_other) (auto simp: prod_eq_iff)
  have pn: "p \<notin> set ps" and d: "distinct ps" using Cons.prems(2) by simp_all
  have i1: "\<forall>q \<in> set ps. inside b1 (fst q) (snd q)" using Cons.prems(3) by (simp add: ins)
  have r1: "\<forall>q \<in> set ps. representable T b1 (f (Get T b1 (fst q) (snd q)) (Get T rhs (fst q) (snd q)))"
  proof
    fix q assume q: "q \<in> set ps"
    then have "q \<noteq> p" using pn by auto
    moreover have "inside b (fst q) (snd q)" using q Cons.prems(3) by simp
    ultimately have "Get T b1 (fst q) (snd q) = Get T b (fst q) (snd q)"
      using other[of "fst q" "snd q"] by simp
    then show "representable T b1 (f (Get T b1 (fst q) (snd q)) (Get T rhs (fst q) (snd q)))"
      using q Cons.prems(4) by (simp add: representable_header[OF hd(3)])
  qed
  from Cons.IH[OF wf1 d i1 r1] obtain b' where
    l: "assign_loop f T rhs ps b1 = (b', Inr ())" and wf': "well_formed b'"
    and h': "width b' = width b1" "height b' = height b1" "channels b' = channels b1"
    and g': "\<forall>x y. inside b1 x y \<longrightarrow>
            Get T b' x y = (if (x, y) \<in> set ps then f (Get T b1 x y) (Get T rhs x y)
                            else Get T b1 x y)"
    by blast
  have run: "assign_loop f T rhs (p # ps) b = (b', Inr ())"
    using pl l by (simp add: c_def)
  have "\<forall>x y. inside b x y \<longrightarrow>
      Get T b' x y = (if (x, y) \<in> set (p # ps) then f (Get T b x y) (Get T rhs x y) else Get T b x y)"
  proof (intro allI impI)
    fix x y assume xy: "inside b x y"
    then have g: "Get T b' x y = (if (x, y) \<in> set ps then f (Get T b1 x y) (Get T rhs x y)
                            else Get T b1 x y)" using g' by (simp add: ins)
    show "Get T b' x y = (if (x, y) \<in> set (p # ps) then f (Get T b x y) (Get T rhs x y) else Get T b x y)"
    proof (cases "(x, y) = p")
      case True
      then have "(x, y) \<notin> set ps" using pn by simp
      with g True same show ?thesis by (auto simp: c_def)
    next
      case False
      with other[OF xy] g show ?thesis by auto
    qed
  qed
  with run wf' h' hd show ?case by simp
qed

lemma Color_sub_assign_representable:
  fixes c d :: "'a::len word Color"
  assumes "representable T b c" "representable T b d"
  shows "representable T b (Color_sub_assign c d)"
  using assms by (auto simp: representable_def Color_sub_assign_def)

lemma operator_sub_assign_correct:
  fixes b rhs :: "'w::len word BitmapData"
  assumes "well_formed b" "well_formed rhs" "channels rhs = channels b"
  shows "\<exists>b'. operator_sub_assign T b rhs = (b', Inr ()) \<and> well_formed b'
      \<and> width b' = width b \<and> height b' = height b \<and> channels b' = channels b
      \<and> (\<forall>x y. inside b x y \<longrightarrow>
            Get T b' x y = Color_sub_assign (Get T b x y) (Get T rhs x y))"
proof -
  have l: "layout b" "layout rhs" using assms by (simp_all add: well_formed_def)
  have r: "\<forall>p \<in> set (pixels b). representable T b
      (Color_sub_assign (Get T b (fst p) (snd p)) (Get T rhs (fst p) (snd p)))"
  proof
    fix p
    have "representable T rhs (Get T rhs (fst p) (snd p))" by (rule Get_representable[OF l(2)])
    then have "representable T b (Get T rhs (fst p) (snd p))"
      by (simp add: representable_header[OF assms(3)])
    with Get_representable[OF l(1)]
    show "representable T b (Color_sub_assign (Get T b (fst p) (snd p)) (Get T rhs (fst p) (snd p)))"
      by (rule Color_sub_assign_representable)
  qed
  have i: "\<forall>p \<in> set (pixels b). inside b (fst p) (snd p)" by (auto simp: set_pixels)
  from assign_loop_correct[OF assms(1) distinct_pixels i r]
  show ?thesis unfolding operator_sub_assign_def by (simp add: set_pixels)
qed

section \<open>Color subtraction\<close>

text \<open>
  Claim C1 says that \<open>a -= b\<close> on colors over an unsigned sample type clamps a channel
  at the type's minimum when the subtrahend channel exceeds the minuend channel, so that
  \<open>(3,5,7) - (5,3,2)\<close> is \<open>(0,2,5)\<close> for 64-bit channels.  The operator is the built-in
  subtraction of \<open>T\<close>: at that input the red channel is \<open>2^64 - 2\<close>, which is what the
  test \<open>ColorWrap\<close> expects (\<open>Color<uint64_t> result(-2, 2, 5)\<close>).
\<close>

theorem Color_subtraction_saturates_counterexample:
  "Color_sub_assign (Color_rgba 3 5 7 (- 1) :: 64 word Color) (Color_rgba 5 3 2 (- 1))
     = Color_rgba 18446744073709551614 2 5 (- 1)
   \<and> Color_sub_assign (Color_rgba 3 5 7 (- 1) :: 64 word Color) (Color_rgba 5 3 2 (- 1))
     \<noteq> Color_rgba 0 2 5 (- 1)"
  by (simp add: Color_sub_assign_def Color_rgba_def)

text \<open>
  Claim C1 as amended: for every unsigned sample type of \<open>w\<close> bits, each of the red,
  green and blue channels of \<open>a -= b\<close> is the difference modulo \<open>2 ^ w\<close> (the plain
  difference when the subtrahend channel does not exceed the minuend channel, and
  \<open>2 ^ w\<close> more than the negative difference otherwise), and alpha is kept.  The same
  holds per pixel for \<open>BitmapData\<close>'s whole-buffer \<open>operator-=\<close> on two containers of
  the same geometry: the call does not throw, keeps the geometry, and every pixel of
  the result reads as the wrapped difference of the two pixels.
\<close>

theorem Color_subtraction_wraps:
  fixes a c :: "'w::len word Color" and b rhs :: "'w word BitmapData"
  assumes wf: "well_formed b" "well_formed rhs"
    and geometry: "width rhs = width b" "height rhs = height b" "channels rhs = channels b"
  shows "unat (Red (Color_sub_assign a c))
           = (if Red c \<le> Red a then unat (Red a) - unat (Red c)
              else unat (Red a) + 2 ^ LENGTH('w) - unat (Red c))
       \<and> unat (Green (Color_sub_assign a c))
           = (if Green c \<le> Green a then unat (Green a) - unat (Green c)
              else unat (Green a) + 2 ^ LENGTH('w) - unat (Green c))
       \<and> unat (Blue (Color_sub_assign a c))
           = (if Blue c \<le> Blue a then unat (Blue a) - unat (Blue c)
              else unat (Blue a) + 2 ^ LENGTH('w) - unat (Blue c))
       \<and> Alpha (Color_sub_assign a c) = Alpha a
       \<and> (\<exists>b'. operator_sub_assign T b rhs = (b', Inr ()) \<and> well_formed b'
            \<and> width b' = width b \<and> height b' = height b \<and> channels b' = channels b
            \<and> (\<forall>x y. inside b x y \<longrightarrow>
                  Get T b' x y = Color_sub_assign (Get T b x y) (Get T rhs x y)))"
proof -
  have "unat (x - y) = (if y \<le> x then unat x - unat y else unat x + 2 ^ LENGTH('w) - unat y)"
    for x y :: "'w word"
    by (simp add: unat_sub_if' word_le_nat_alt)
  then show ?thesis
    using operator_sub_assign_correct[OF wf geometry(3), of T] by (simp add: Color_sub_assign_def)
qed

theorem Color_subtraction_wraps_witness:
  "well_formed (gray_2x1 3 200) \<and> well_formed (gray_2x1 5 100)
   \<and> unat (Red (Color_sub_assign (Color_rgba 3 5 7 (- 1) :: 8 word Color) (Color_rgba 5 3 2 (- 1)))) = 254
   \<and> (\<exists>b'. operator_sub_assign (unsigned_type (\<lambda>r g b. r)) (gray_2x1 3 200) (gray_2x1 5 100)
             = (b', Inr ())
        \<and> Get (unsigned_type (\<lambda>r g b. r)) b' 0 0 = Color_rgba 254 254 254 255
        \<and> Get (unsigned_type (\<lambda>r g b. r)) b' 1 0 = Color_rgba 100 100 100 255)"
proof -
  let ?T = "unsigned_type (\<lambda>r g b. r) :: 8 word sample_type"
  have wf: "well_formed (gray_2x1 3 200)" "well_formed (gray_2x1 5 100)"
    by (simp_all add: well_formed_def layout_def gray_2x1_def)
  have ch: "width (gray_2x1 5 100) = width (gray_2x1 3 200)"
    "height (gray_2x1 5 100) = height (gray_2x1 3 200)"
    "channels (gray_2x1 5 100) = channels (gray_2x1 3 200)"
    by (simp_all add: gray_2x1_def)
  from Color_subtraction_wraps[OF wf ch, of "Color_rgba 3 5 7 (- 1)" "Color_rgba 5 3 2 (- 1)" ?T]
  obtain b' where r: "unat (Red (Color_sub_assign (Color_rgba 3 5 7 (- 1) :: 8 word Color) (Color_rgba 5 3 2 (- 1))))
           = (if Red (Color_rgba 5 3 2 (- 1) :: 8 word Color) \<le> Red (Color_rgba 3 5 7 (- 1) :: 8 word Color)
              then unat (Red (Color_rgba 3 5 7 (- 1) :: 8 word Color)) - unat (Red (Color_rgba 5 3 2 (- 1) :: 8 word Color))
              else unat (Red (Color_rgba 3 5 7 (- 1) :: 8 word Color)) + 2 ^ LENGTH(8) - unat (Red (Color_rgba 5 3 2 (- 1) :: 8 word Color)))"
    and run: "operator_sub_assign ?T (gray_2x1 3 200) (gray_2x1 5 100) = (b', Inr ())"
    and px: "\<forall>x y. inside (gray_2x1 3 200) x y \<longrightarrow>
        Get ?T b' x y = Color_sub_assign (Get ?T (gray_2x1 3 200) x y) (Get ?T (gray_2x1 5 100) x y)"
    by blast
  have r': "unat (Red (Color_sub_assign (Color_rgba 3 5 7 (- 1) :: 8 word Color) (Color_rgba 5 3 2 (- 1)))) = 254"
    using r by (simp add: Color_rgba_def)
  have i: "inside (gray_2x1 3 200) 0 0" "inside (gray_2x1 3 200) 1 0"
    by (simp_all add: inside_def gray_2x1_def)
  have g0: "Get ?T b' 0 0 = Color_rgba 254 254 254 255"
    using px i(1) by (simp add: Get_def GetGray_def gray_2x1_def sample_at_def Color_gray_def
        Color_rgba_def Color_sub_assign_def unsigned_type_def)
  have g1: "Get ?T b' 1 0 = Color_rgba 100 100 100 255"
    using px i(2) by (simp add: Get_def GetGray_def gray_2x1_def sample_at_def Color_gray_def
        Color_rgba_def Color_sub_assign_def unsigned_type_def)
  show ?thesis using wf r' run g0 g1 by blast
qed

section \<open>Construction\<close>

text \<open>
  Claim C9: constructing a container raises a configuration error exactly when the
  requested channel count is not 1, 3 or 4 (a count of 2 is rejected); on success the
  channel indices are those the count determines: count 1 gives gray, red, green and
  blue index 0; count 3 gives red 0, green 1, blue 2 and no alpha; count 4 gives alpha
  0, red 1, green 2, blue 3.  Both constructors that take a channel count are covered.
\<close>

theorem construction_channel_count:
  fixes T :: "'a::zero sample_type"
  shows "((\<exists>e. BitmapData_new T w h c = Inl e) \<longleftrightarrow> c \<notin> {1, 3, 4})
    \<and> ((\<exists>e. BitmapData_wrap T buf w h c = Inl e) \<longleftrightarrow> c \<notin> {1, 3, 4})
    \<and> BitmapData_new T w h 2 = Inl (UnsupportedChannels 2)
    \<and> BitmapData_wrap T buf w h 2 = Inl (UnsupportedChannels 2)
    \<and> (\<forall>b. BitmapData_new T w h c = Inr b \<or> BitmapData_wrap T buf w h c = Inr b \<longrightarrow>
          channels b = c
        \<and> (c = 1 \<longrightarrow> grayIndex b = 0 \<and> redIndex b = 0 \<and> greenIndex b = 0 \<and> blueIndex b = 0
                      \<and> alphaIndex b = - 1)
        \<and> (c = 3 \<longrightarrow> redIndex b = 0 \<and> greenIndex b = 1 \<and> blueIndex b = 2
                      \<and> alphaIndex b = - 1 \<and> grayIndex b = - 1)
        \<and> (c = 4 \<longrightarrow> alphaIndex b = 0 \<and> redIndex b = 1 \<and> greenIndex b = 2 \<and> blueIndex b = 3
                      \<and> grayIndex b = - 1))"
  by (auto simp: BitmapData_new_def BitmapData_wrap_def Init_def members_def)

theorem construction_channel_count_witness:
  "(\<exists>e. BitmapData_new (unsigned_type (\<lambda>r g b. r) :: 8 word sample_type) 5 4 2 = Inl e)
   \<and> (\<exists>b. BitmapData_new (unsigned_type (\<lambda>r g b. r) :: 8 word sample_type) 5 4 4 = Inr b
         \<and> alphaIndex b = 0 \<and> redIndex b = 1 \<and> greenIndex b = 2 \<and> blueIndex b = 3)
   \<and> (\<exists>b. BitmapData_wrap (unsigned_type (\<lambda>r g b. r) :: 8 word sample_type) [1, 2, 3] 1 1 3 = Inr b
         \<and> redIndex b = 0 \<and> greenIndex b = 1 \<and> blueIndex b = 2 \<and> alphaIndex b = - 1)"
proof -
  let ?T = "unsigned_type (\<lambda>r g b. r) :: 8 word sample_type"
  note t = construction_channel_count[where T = ?T]
  have 1: "\<exists>e. BitmapData_new ?T 5 4 2 = Inl e"
    using t[of 5 4 2 "[]"] by simp
  have "\<not> (\<exists>e. BitmapData_new ?T 5 4 4 = Inl e)" using t[of 5 4 4 "[]"] by simp
  then obtain b where b: "BitmapData_new ?T 5 4 4 = Inr b" by (meson sum.exhaust_sel sumE)
  have 2: "alphaIndex b = 0 \<and> redIndex b = 1 \<and> greenIndex b = 2 \<and> blueIndex b = 3"
    using t[of 5 4 4 "[]"] b by simp
  have "\<not> (\<exists>e. BitmapData_wrap ?T [1, 2, 3] 1 1 3 = Inl e)" using t[of 1 1 3 "[1, 2, 3]"] by simp
  then obtain b' where b': "BitmapData_wrap ?T [1, 2, 3] 1 1 3 = Inr b'" by (meson sumE)
  have 3: "redIndex b' = 0 \<and> greenIndex b' = 1 \<and> blueIndex b' = 2 \<and> alphaIndex b' = - 1"
    using t[of 1 1 3 "[1, 2, 3]"] b' by simp
  show ?thesis using 1 2 3 b b' by blast
qed

text \<open>
  Claim C8 says that for every sample type, \<open>double\<close> included, the displayed-brightness
  window of a fresh container is \<open>[T's minimum, T's maximum]\<close>.  The lower end is
  initialised with the literal \<open>0\<close>.  For \<open>double\<close> that is neither
  \<open>std::numeric_limits<double>::min()\<close> (the least positive normal value, which the
  \<open>Color\<close> members use as "T's minimum") nor \<open>lowest()\<close>.
\<close>

theorem default_window_double_counterexample:
  "\<exists>b. BitmapData_new (double_type (\<lambda>r g b. r)) 1 1 1 = Inr b
       \<and> minDisplayedBrightness b = 0
       \<and> minDisplayedBrightness b \<noteq> numeric_min (double_type (\<lambda>r g b. r))
       \<and> minDisplayedBrightness b \<noteq> numeric_lowest (double_type (\<lambda>r g b. r))"
  by (simp add: BitmapData_new_def Init_def members_def double_type_def DBL_MIN_def DBL_MAX_def)

text \<open>
  Claim C8 as amended: for every unsigned sample type of \<open>w\<close> bits the window of a
  fresh container is \<open>[T's minimum, T's maximum] = [0, 2 ^ w - 1]\<close>.  For \<open>double\<close> it
  is \<open>[0, DBL_MAX]\<close>: the upper end is T's maximum, the lower end is \<open>0\<close>, which lies
  strictly between \<open>lowest()\<close> and \<open>min()\<close>.
\<close>

theorem default_window:
  fixes l :: "'w::len word \<Rightarrow> 'w word \<Rightarrow> 'w word \<Rightarrow> 'w word"
  shows "(\<forall>b. BitmapData_new (unsigned_type l) w h c = Inr b \<longrightarrow>
            minDisplayedBrightness b = numeric_min (unsigned_type l)
          \<and> maxDisplayedBrightness b = numeric_max (unsigned_type l)
          \<and> unat (minDisplayedBrightness b) = 0
          \<and> unat (maxDisplayedBrightness b) = 2 ^ LENGTH('w) - 1)
       \<and> (\<forall>b. BitmapData_new (double_type l') w h c = Inr b \<longrightarrow>
            minDisplayedBrightness b = 0
          \<and> maxDisplayedBrightness b = numeric_max (double_type l')
          \<and> maxDisplayedBrightness b = DBL_MAX
          \<and> numeric_lowest (double_type l') < minDisplayedBrightness b
          \<and> minDisplayedBrightness b < numeric_min (double_type l'))"
  by (auto simp: BitmapData_new_def Init_def members_def unsigned_type_def double_type_def
      DBL_MIN_def DBL_MAX_def unsigned_minus_1_eq_mask mask_eq_exp_minus_1 split: if_splits)

theorem default_window_witness:
  "(\<exists>b. BitmapData_new (unsigned_type (\<lambda>r g b. r) :: 16 word sample_type) 2 2 3 = Inr b
        \<and> unat (minDisplayedBrightness b) = 0 \<and> unat (maxDisplayedBrightness b) = 65535)
   \<and> (\<exists>b. BitmapData_new (double_type (\<lambda>r g b. r)) 2 2 3 = Inr b
        \<and> minDisplayedBrightness b = 0 \<and> maxDisplayedBrightness b = DBL_MAX)"
proof -
  let ?l = "(\<lambda>r g b. r) :: 16 word \<Rightarrow> 16 word \<Rightarrow> 16 word \<Rightarrow> 16 word"
  let ?l' = "(\<lambda>r g b. r) :: real \<Rightarrow> real \<Rightarrow> real \<Rightarrow> real"
  obtain b where b: "BitmapData_new (unsigned_type ?l) 2 2 3 = Inr b"
    by (simp add: BitmapData_new_def Init_def members_def)
  obtain b' where b': "BitmapData_new (double_type ?l') 2 2 3 = Inr b'"
    by (simp add: BitmapData_new_def Init_def members_def)
  from default_window[of ?l 2 2 3 ?l'] b b'
  have "unat (minDisplayedBrightness b) = 0 \<and> unat (maxDisplayedBrightness b) = 65535"
    and "minDisplayedBrightness b' = 0 \<and> maxDisplayedBrightness b' = DBL_MAX"
    by (simp del: unat_eq_0)+
  with b b' show ?thesis by blast
qed

section \<open>Size comparison\<close>

text \<open>
  Claim C3 says that \<open>operator==\<close> between two containers is decided by width, height,
  channel count and the absolute value of the depth, so that containers of identical
  geometry with depths 8 and -8 compare equal.  The operator compares \<open>Depth()\<close> with
  its sign: a \<open>uint64_t\<close> and a \<open>double\<close> container of the same geometry have the same
  product \<open>width * height * channels * |depth|\<close> and are not equal.
\<close>

theorem size_equality_counterexample:
  "\<exists>a b. BitmapData_new (unsigned_type (\<lambda>r g b. r) :: 64 word sample_type) 2 2 1 = Inr a
      \<and> BitmapData_new (double_type (\<lambda>r g b. r)) 2 2 1 = Inr b
      \<and> Depth (unsigned_type (\<lambda>r g b. r) :: 64 word sample_type) = 8
      \<and> Depth (double_type (\<lambda>r g b. r)) = - 8
      \<and> width a = width b \<and> height a = height b \<and> channels a = channels b
      \<and> width a * height a * channels a * \<bar>Depth (unsigned_type (\<lambda>r g b. r) :: 64 word sample_type)\<bar>
          = width b * height b * channels b * \<bar>Depth (double_type (\<lambda>r g b. r))\<bar>
      \<and> \<not> operator_eq (unsigned_type (\<lambda>r g b. r) :: 64 word sample_type) a
             (double_type (\<lambda>r g b. r)) b"
  by (simp add: BitmapData_new_def Init_def members_def operator_eq_def Depth_def
      unsigned_type_def double_type_def)

text \<open>
  Claim C3 as amended: for every two containers, possibly of different sample types,
  \<open>operator==\<close> holds exactly when width, height, channel count and the signed depth
  each agree.  Pixel content never matters.  Equality implies that the products
  \<open>width * height * channels * |depth|\<close> agree (neither container is \<open><\<close> the other).
  An unsigned container has a positive depth and a \<open>double\<close> container depth -8, so
  the two never compare equal.
\<close>

theorem size_equality:
  fixes T :: "'a sample_type" and U :: "'b sample_type"
    and lhs :: "'a BitmapData" and rhs :: "'b BitmapData"
  shows "(operator_eq T lhs U rhs \<longleftrightarrow>
            width lhs = width rhs \<and> height lhs = height rhs \<and> channels lhs = channels rhs
            \<and> Depth T = Depth U)
       \<and> operator_eq T (lhs \<lparr> buffer := p \<rparr>) U (rhs \<lparr> buffer := q \<rparr>) = operator_eq T lhs U rhs
       \<and> (operator_eq T lhs U rhs \<longrightarrow>
            width lhs * height lhs * channels lhs * \<bar>Depth T\<bar>
              = width rhs * height rhs * channels rhs * \<bar>Depth U\<bar>
            \<and> \<not> operator_less T lhs U rhs \<and> \<not> operator_greater T lhs U rhs)
       \<and> Depth (unsigned_type l :: 'w::len word sample_type) = int (LENGTH('w) div 8)
       \<and> Depth (double_type l') = - 8
       \<and> \<not> operator_eq (unsigned_type l :: 'w::len word sample_type) x (double_type l') y"
  by (auto simp: operator_eq_def operator_less_def operator_greater_def Depth_def
      unsigned_type_def double_type_def)

theorem size_equality_witness:
  "operator_eq (unsigned_type (\<lambda>r g b. r)) (gray_2x1 3 200)
      (unsigned_type (\<lambda>r g b. r)) (gray_2x1 5 100)
   \<and> width (gray_2x1 3 200) * height (gray_2x1 3 200) * channels (gray_2x1 3 200)
         * \<bar>Depth (unsigned_type (\<lambda>r g b. r) :: 8 word sample_type)\<bar> = 2
   \<and> \<not> operator_less (unsigned_type (\<lambda>r g b. r)) (gray_2x1 3 200)
          (unsigned_type (\<lambda>r g b. r)) (gray_2x1 5 100)"
proof -
  let ?T = "unsigned_type (\<lambda>r g b. r) :: 8 word sample_type"
  have g: "width (gray_2x1 3 200) = width (gray_2x1 5 100)"
    "height (gray_2x1 3 200) = height (gray_2x1 5 100)"
    "channels (gray_2x1 3 200) = channels (gray_2x1 5 100)"
    by (simp_all add: gray_2x1_def)
  note t = size_equality[of ?T "gray_2x1 3 200" ?T "gray_2x1 5 100"]
  have e: "operator_eq ?T (gray_2x1 3 200) ?T (gray_2x1 5 100)"
    using t g by blast
  have l: "\<not> operator_less ?T (gray_2x1 3 200) ?T (gray_2x1 5 100)"
    using t e by blast
  have "width (gray_2x1 3 200) * height (gray_2x1 3 200) * channels (gray_2x1 3 200)
         * \<bar>Depth ?T\<bar> = 2"
    by (simp add: gray_2x1_def Depth_def unsigned_type_def)
  with e l show ?thesis by blast
qed

section \<open>Plot on a container without alpha channel\<close>

text \<open>
  Claim C10: on a container with no alpha channel, \<open>Plot(x, y, color)\<close> at a pixel inside
  the container throws exactly when the color's alpha differs from T's maximum, and
  by then the gray channel (one channel) or the red, green and blue channels (three
  channels) of the pixel already hold the new color: the buffer the failed call leaves
  behind is the written one.
\<close>

theorem Plot_without_alpha_channel:
  assumes "well_formed b" "alphaIndex b = - 1" "inside b x y"
  shows "(snd (Plot T b x y color) = Inl CannotSetAlpha \<longleftrightarrow> Alpha color \<noteq> numeric_max T)
       \<and> (snd (Plot T b x y color) = Inr True \<longleftrightarrow> Alpha color = numeric_max T)
       \<and> (channels b = 1 \<or> channels b = 3)
       \<and> (channels b = 1 \<longrightarrow>
            buffer (fst (Plot T b x y color))
              = (buffer b)[nat (y * width b + x) := Gray T color]
            \<and> GetGray T (fst (Plot T b x y color)) x y = Gray T color)
       \<and> (channels b = 3 \<longrightarrow>
            buffer (fst (Plot T b x y color))
              = (buffer b)[nat ((y * width b + x) * 3) := Red color,
                           nat ((y * width b + x) * 3 + 1) := Green color,
                           nat ((y * width b + x) * 3 + 2) := Blue color]
            \<and> GetRed (fst (Plot T b x y color)) x y = Red color
            \<and> GetGreen (fst (Plot T b x y color)) x y = Green color
            \<and> GetBlue (fst (Plot T b x y color)) x y = Blue color)
       \<and> width (fst (Plot T b x y color)) = width b
       \<and> height (fst (Plot T b x y color)) = height b
       \<and> channels (fst (Plot T b x y color)) = channels b"
proof -
  define p where "p = y * width b + x"
  have io: "\<not> (x < 0 \<or> y < 0 \<or> width b \<le> x \<or> height b \<le> y)"
    using assms(3) by (auto simp: inside_def)
  have p0: "0 \<le> p" using assms by (auto simp: p_def inside_def well_formed_def)
  have len: "\<And>k. 0 \<le> k \<Longrightarrow> k < channels b \<Longrightarrow> p * channels b + k < int (length (buffer b))"
    using assms unfolding p_def well_formed_def inside_def by (auto intro: idx_less)
  from assms(1) have "layout b" by (simp add: well_formed_def)
  then show ?thesis
  proof (cases rule: layout_cases)
    case gray
    from len[of 0] gray have "p < int (length (buffer b))" by simp
    with gray io p0 show ?thesis
      by (simp add: Plot_def Let_def GetGray_def store_fields sample_at_store_same flip: p_def)
        (simp add: store_def)
  next
    case rgb
    from len[of 0] len[of 1] len[of 2] rgb
    have l: "p * 3 < int (length (buffer b))" "p * 3 + 1 < int (length (buffer b))"
      "p * 3 + 2 < int (length (buffer b))" by simp_all
    with rgb io p0 show ?thesis
      by (simp add: Plot_def Let_def GetRed_def GetGreen_def GetBlue_def
          store_fields sample_at_store_same sample_at_store_other flip: p_def)
        (simp add: store_def nat_add_distrib)
  next
    case rgba
    with assms(2) show ?thesis by simp
  qed
qed

theorem Plot_without_alpha_channel_witness:
  "well_formed (gray_2x1 3 200) \<and> alphaIndex (gray_2x1 3 200) = - 1 \<and> inside (gray_2x1 3 200) 1 0
   \<and> Alpha (Color_rgba 9 9 9 7 :: 8 word Color) \<noteq> numeric_max (unsigned_type (\<lambda>r g b. r))
   \<and> snd (Plot (unsigned_type (\<lambda>r g b. r)) (gray_2x1 3 200) 1 0 (Color_rgba 9 9 9 7))
        = Inl CannotSetAlpha
   \<and> buffer (gray_2x1 3 200) = [3, 200]
   \<and> buffer (fst (Plot (unsigned_type (\<lambda>r g b. r)) (gray_2x1 3 200) 1 0 (Color_rgba 9 9 9 7)))
        = [3, 9]"
proof -
  let ?T = "unsigned_type (\<lambda>r g b. r) :: 8 word sample_type"
  have h: "well_formed (gray_2x1 3 200)" "alphaIndex (gray_2x1 3 200) = - 1"
    "inside (gray_2x1 3 200) 1 0"
    by (simp_all add: well_formed_def layout_def inside_def gray_2x1_def)
  have a: "Alpha (Color_rgba 9 9 9 7 :: 8 word Color) \<noteq> numeric_max ?T"
    by (simp add: Color_rgba_def unsigned_type_def)
  have c: "channels (gray_2x1 3 200) = 1" by (simp add: gray_2x1_def)
  note t = Plot_without_alpha_channel[OF h, of ?T "Color_rgba 9 9 9 7"]
  have r: "snd (Plot ?T (gray_2x1 3 200) 1 0 (Color_rgba 9 9 9 7)) = Inl CannotSetAlpha"
    using t a by blast
  have "buffer (fst (Plot ?T (gray_2x1 3 200) 1 0 (Color_rgba 9 9 9 7)))
      = (buffer (gray_2x1 3 200))[nat (0 * width (gray_2x1 3 200) + 1) := Gray ?T (Color_rgba 9 9 9 7)]"
    using t c by blast
  then have w: "buffer (fst (Plot ?T (gray_2x1 3 200) 1 0 (Color_rgba 9 9 9 7))) = [3, 9]"
    by (simp add: gray_2x1_def Gray_def Color_rgba_def)
  have "buffer (gray_2x1 3 200) = [3, 200]" by (simp add: gray_2x1_def)
  with h a r w show ?thesis by blast
qed

section \<open>Interpolation at and beyond the boundary\<close>

text \<open>
  Claim C6: for all integer coordinates \<open>(dx, dy)\<close> within the clamp bounds the
  interpolation routine returns exactly \<open>sample(dx, dy)\<close>; the sampler is called once,
  at that point, and nothing is mixed.
\<close>

theorem interpolation_at_lattice_point:
  assumes "dx = of_int i" "dy = of_int j"
    "min_x \<le> dx" "dx \<le> max_x" "min_y \<le> dy" "dy \<le> max_y"
  shows "Do Mix dx dy min_x min_y max_x max_y getter = (getter i j, [(i, j)])"
  using assms by (simp add: Do_def Let_def max_def min_def)

theorem interpolation_at_lattice_point_witness:
  "(2::real) = of_int 2 \<and> (1::real) = of_int 1 \<and> (0::real) \<le> 2 \<and> (2::real) \<le> 3
   \<and> (0::real) \<le> 1 \<and> (1::real) \<le> 3
   \<and> Do (\<lambda>a ws. a + sum_list (map (\<lambda>(w, v). w * v) ws)) 2 1 0 0 3 3
        (\<lambda>x y. real_of_int (10 * y + x)) = (12, [(2, 1)])"
  using interpolation_at_lattice_point[of 2 2 1 1 0 3 0 3
      "\<lambda>a ws. a + sum_list (map (\<lambda>(w, v). w * v) ws)" "\<lambda>x y. real_of_int (10 * y + x)"]
  by simp



section \<open>The integer line\<close>















section \<open>The average of a region\<close>

text \<open>
  Both functions add every scanned gray value to \<open>sum\<close>, so what they store as the
  average is \<open>(T)((sum + 1) / count)\<close> for the sum of the region.
\<close>

lemma MaxGray_body_sum:
  "var_sum (MaxGray_body T b v p) = var_sum v + uint (GetGray T b (fst p) (snd p))"
  by (simp add: MaxGray_body_def Let_def)

lemma MaxGray_sum:
  "var_sum (foldl (MaxGray_body T b) v ps) = var_sum v + region_sum T b ps"
  by (induction ps arbitrary: v) (simp_all add: region_sum_def MaxGray_body_sum)

lemma MinGray_body_sum:
  "mvar_sum (MinGray_body T b v p) = mvar_sum v + uint (GetGray T b (fst p) (snd p))"
  by (simp add: MinGray_body_def Let_def)

lemma MinGray_sum:
  "mvar_sum (foldl (MinGray_body T b) v ps) = mvar_sum v + region_sum T b ps"
  by (induction ps arbitrary: v) (simp_all add: region_sum_def MinGray_body_sum)

lemma average_is_sum_plus_one:
  "average (MaxGray T b x0 y0 x1 y1)
     = stored_average T
         (region_sum T b (scan_region (max 0 x0) (max 0 y0) (min (width b - 1) x1) (min (height b - 1) y1)))
         ((min (width b - 1) x1 - max 0 x0 + 1) * (min (height b - 1) y1 - max 0 y0 + 1))
   \<and> min_average (MinGray T b x0 y0 x1 y1)
     = stored_average T
         (region_sum T b (scan_region (max 0 x0) (max 0 y0) (min (width b - 1) x1) (min (height b - 1) y1)))
         ((min (width b - 1) x1 - max 0 x0 + 1) * (min (height b - 1) y1 - max 0 y0 + 1))"
  by (simp add: MaxGray_def MinGray_def Let_def MaxGray_sum MinGray_sum)

text \<open>
  Claim C4: for every rectangle that clamps to a non-empty region, the value \<open>MaxGray\<close>
  (or \<open>MinGray\<close>) stores as the average is the arithmetic mean of the region's gray
  values, the sum divided by the pixel count, converted to \<open>T\<close>.  On the one-pixel region
  \<open>(0,0)-(0,0)\<close> of a gray \<open>uint8_t\<close> container whose first pixel is 5 the mean is 5;
  both functions store \<open>(5 + 1) / 1 = 6\<close>.
\<close>

theorem average_of_one_pixel:
  "scan_region 0 0 0 0 = [(0, 0)]
   \<and> GetGray (unsigned_type (\<lambda>r g b. r)) (gray_2x1 5 7) 0 0 = 5
   \<and> arithmetic_mean (unsigned_type (\<lambda>r g b. r)) (gray_2x1 5 7) (scan_region 0 0 0 0) = 5
   \<and> average (MaxGray (unsigned_type (\<lambda>r g b. r)) (gray_2x1 5 7) 0 0 0 0) = Some 6
   \<and> min_average (MinGray (unsigned_type (\<lambda>r g b. r)) (gray_2x1 5 7) 0 0 0 0) = Some 6"
proof -
  let ?T = "unsigned_type (\<lambda>r g b. r) :: 8 word sample_type"
  have r: "scan_region 0 0 0 0 = [(0, 0)]" by (simp add: scan_region_def)
  have g: "GetGray ?T (gray_2x1 5 7) 0 0 = 5"
    by (simp add: GetGray_def gray_2x1_def sample_at_def)
  have s: "region_sum ?T (gray_2x1 5 7) [(0, 0)] = 5" by (simp add: region_sum_def g)
  have m: "arithmetic_mean ?T (gray_2x1 5 7) (scan_region 0 0 0 0) = 5"
    by (simp add: arithmetic_mean_def r s)
  have w: "width (gray_2x1 5 7) = 2" "height (gray_2x1 5 7) = 1" by (simp_all add: gray_2x1_def)
  have a: "stored_average ?T 5 1 = Some 6"
    by (simp add: stored_average_def truncated_quotient_def unsigned_type_def Let_def
        unsigned_minus_1_eq_mask mask_eq_exp_minus_1)
  from average_is_sum_plus_one[of ?T "gray_2x1 5 7" 0 0 0 0]
  have "average (MaxGray ?T (gray_2x1 5 7) 0 0 0 0) = Some 6"
    and "min_average (MinGray ?T (gray_2x1 5 7) 0 0 0 0) = Some 6"
    by (simp_all add: w r s a)
  with r g m show ?thesis by blast
qed

section \<open>The linear display mapping\<close>

lemma lround_mono: "x \<le> y \<Longrightarrow> lround x \<le> lround y"
proof -
  assume xy: "x \<le> y"
  have a: "0 \<le> \<lfloor>z + 1 / 2\<rfloor>" if "0 \<le> z" for z :: real using that by (simp add: le_floor_iff)
  have b: "- \<lfloor>- z + 1 / 2\<rfloor> \<le> 0" if "z < 0" for z :: real using that by (simp add: le_floor_iff)
  show ?thesis
  proof (cases "0 \<le> x")
    case True
    then have "0 \<le> y" using xy by simp
    with True xy show ?thesis by (simp add: lround_def floor_mono)
  next
    case False
    show ?thesis
    proof (cases "0 \<le> y")
      case True
      have "lround x \<le> 0" using False b[of x] by (simp add: lround_def del: minus_add_distrib)
      moreover have "0 \<le> lround y" using True a[of y] by (simp add: lround_def)
      ultimately show ?thesis by linarith
    next
      case y: False
      have "\<lfloor>- y + 1 / 2\<rfloor> \<le> \<lfloor>- x + 1 / 2\<rfloor>" using xy by (intro floor_mono) simp
      with False y show ?thesis by (simp add: lround_def)
    qed
  qed
qed

lemma to_uint8_mono: "m \<le> n \<Longrightarrow> to_uint8 m \<le> to_uint8 n"
proof -
  assume mn: "m \<le> n"
  define a where "a = max 0 (min 255 m)"
  define c where "c = max 0 (min 255 n)"
  have r: "0 \<le> a" "a < 256" "0 \<le> c" "c < 256" "a \<le> c" using mn by (auto simp: a_def c_def)
  have "uint (word_of_int a :: 8 word) = a" "uint (word_of_int c :: 8 word) = c"
    using r by (simp_all add: uint_word_of_int)
  then have "(word_of_int a :: 8 word) \<le> word_of_int c" using r(5) by (simp add: word_le_def)
  then show ?thesis by (simp add: to_uint8_def a_def c_def)
qed

lemma lround_0: "lround 0 = 0"
  by (simp add: lround_def)

lemma lround_255: "254.5 \<le> x \<Longrightarrow> x < 255.5 \<Longrightarrow> lround x = 255"
  by (simp add: lround_def floor_eq_iff)


lemma threshold_large: "(2::real) ^ 80 < overflow_threshold"
proof -
  have "(2::real) ^ 970 \<le> 2 ^ 1023" by (intro power_increasing) auto
  moreover have "(2::real) ^ 1024 = 2 * 2 ^ 1023" by simp
  moreover have "(2::real) ^ 80 < 2 ^ 1023" by (intro power_strict_increasing) auto
  ultimately show ?thesis unfolding overflow_threshold_def by linarith
qed

lemma fl_Some: "\<bar>x\<bar> \<le> 2 ^ 80 \<Longrightarrow> fl rnd x = Some (rnd x)"
  using threshold_large by (simp add: fl_def)

lemma lround_long_small: "0 \<le> x \<Longrightarrow> x \<le> 257 \<Longrightarrow> lround_long x = Some (lround x)"
proof -
  assume a: "0 \<le> x" "x \<le> 257"
  have "lround 0 \<le> lround x" "lround x \<le> lround 257" using a by (auto intro: lround_mono)
  moreover have "lround 257 = 257" by (simp add: lround_def)
  ultimately have "0 \<le> lround x" "lround x \<le> 257" by (simp_all add: lround_0)
  then show ?thesis by (simp add: lround_long_def)
qed

lemma quotient_close:
  fixes n r e :: real
  assumes r: "0 < r" and n: "\<bar>n - 255 * r\<bar> \<le> 255 * r * e"
  shows "\<bar>n / r - 255\<bar> \<le> 255 * e"
proof -
  have "n / r - 255 = (n - 255 * r) / r" using r by (simp add: field_simps)
  then have "\<bar>n / r - 255\<bar> = \<bar>n - 255 * r\<bar> / r" using r by (simp add: abs_divide)
  also have "\<dots> \<le> (255 * r * e) / r" using n r by (intro divide_right_mono) auto
  also have "\<dots> = 255 * e" using r by simp
  finally show ?thesis .
qed

text \<open>
  With \<open>_currentGamma == 0\<close> and a window \<open>lo < hi\<close>, a sample \<open>v\<close> of an unsigned type
  inside the window is mapped to \<open>lround(255.0 * (v - lo) / (hi - lo))\<close>, clamped to
  \<open>[0, 255]\<close>: the rounded divisor is positive and no operation overflows.
\<close>

lemma linear_display_value:
  fixes b :: "'w::len word BitmapData"
  assumes rn: "round_to_nearest rnd" and len: "LENGTH('w) \<le> 64"
    and lt: "minDisplayedBrightness b < maxDisplayedBrightness b"
  defines "lo \<equiv> minDisplayedBrightness b" and "hi \<equiv> maxDisplayedBrightness b"
  defines "D \<equiv> uint hi - uint lo"
  defines "r \<equiv> rnd (real_of_int D)"
  shows "0 < r"
    and "1 \<le> D"
    and "D \<le> 2 ^ 64"
    and "\<And>v. lo \<le> v \<Longrightarrow> v \<le> hi \<Longrightarrow>
           CalculateDisplayValue rnd 0 b v
             = Some (to_uint8 (lround (rnd (rnd (255 * rnd (real_of_int (uint v - uint lo))) / r))))"
proof -
  have mono: "\<And>x y. x \<le> y \<Longrightarrow> rnd x \<le> rnd y" and z: "rnd 0 = 0"
    and err: "\<And>x. 1 \<le> x \<Longrightarrow> x \<le> 2 ^ 80 \<Longrightarrow> \<bar>rnd x - x\<bar> \<le> x / 2 ^ 53"
    using rn by (auto simp: round_to_nearest_def)
  have lh: "lo < hi" using lt by (simp add: lo_def hi_def)
  then have u: "uint lo < uint hi" by (simp add: word_less_def)
  then show D1: "1 \<le> D" by (simp add: D_def)
  have "uint hi < 2 ^ LENGTH('w)" by (rule uint_lt2p)
  also have "(2::int) ^ LENGTH('w) \<le> 2 ^ 64" using len by (intro power_increasing) auto
  finally show D2: "D \<le> 2 ^ 64" using uint_nonnegative[of lo] unfolding D_def by linarith
  have R1: "1 \<le> real_of_int D" using D1 by simp
  have "real_of_int D \<le> real_of_int (2 ^ 64)" using D2 by (simp only: of_int_le_iff)
  then have R2: "real_of_int D \<le> 2 ^ 64" by simp
  then have R3: "real_of_int D \<le> 2 ^ 80" by (rule order_trans) simp
  from err[OF R1 R3] have re: "\<bar>r - real_of_int D\<bar> \<le> real_of_int D / 2 ^ 53"
    by (simp add: r_def)
  moreover have "real_of_int D / 2 ^ 53 \<le> real_of_int D / 2"
    using R1 by (intro divide_left_mono) auto
  ultimately have rb: "real_of_int D / 2 \<le> r" "r \<le> 2 * real_of_int D" using R1 by linarith+
  show r0: "0 < r" using rb(1) R1 by linarith
  have r65: "r \<le> 2 ^ 65" using rb(2) R2 by simp
  have n1: "1 \<le> 255 * r" using rb(1) R1 by linarith
  have "255 * r \<le> 255 * 2 ^ 65" using r65 by simp
  also have "\<dots> \<le> (2::real) ^ 80" by simp
  finally have n2: "255 * r \<le> 2 ^ 80" .
  have "\<bar>rnd (255 * r) - 255 * r\<bar> \<le> 255 * r / 2 ^ 53" by (rule err[OF n1 n2])
  moreover have "255 * r / 2 ^ 53 \<le> r" using r0 by simp
  ultimately have nr: "rnd (255 * r) \<le> 256 * r" by linarith
  have "\<bar>rnd 256 - 256\<bar> \<le> 256 / 2 ^ 53" using err[of 256] by simp
  moreover have "(256::real) / 2 ^ 53 \<le> 1" by simp
  ultimately have r256: "rnd 256 \<le> 257" by linarith
  have pd: "promoted_difference hi lo = D"
    using u by (simp add: promoted_difference_def uint_sub_if' D_def)
  show "CalculateDisplayValue rnd 0 b v
      = Some (to_uint8 (lround (rnd (rnd (255 * rnd (real_of_int (uint v - uint lo))) / r))))"
    if "lo \<le> v" "v \<le> hi" for v
  proof -
    define d where "d = rnd (real_of_int (uint v - uint lo))"
    define n where "n = rnd (255 * d)"
    have c: "max v lo = v" "min v hi = v" "min (max v lo) hi = v" "lo \<le> hi"
      using that by (simp_all add: max_def min_def)
    have le: "uint lo \<le> uint v" "uint v \<le> uint hi" using that by (simp_all add: word_le_def)
    then have "uint (v - lo) = uint v - uint lo" by (simp add: uint_sub_if')
    moreover have "real (unat (v - lo)) = real_of_int (uint (v - lo))"
      by simp
    ultimately have dd: "real (unat (v - lo)) = real_of_int (uint v - uint lo)" by (simp only:)
    have "real_of_int 0 \<le> real_of_int (uint v - uint lo)"
      "real_of_int (uint v - uint lo) \<le> real_of_int D"
      using le unfolding D_def by (simp_all only: of_int_le_iff)
    then have "rnd 0 \<le> d" "d \<le> r" unfolding d_def r_def by (auto intro: mono)
    then have d0: "0 \<le> d" and dr: "d \<le> r" by (simp_all add: z)
    have "\<bar>255 * d\<bar> \<le> 2 ^ 80" using d0 dr n2 by simp
    then have f1: "fl rnd (255 * d) = Some n" unfolding n_def by (rule fl_Some)
    have "rnd 0 \<le> n" "n \<le> rnd (255 * r)" unfolding n_def using d0 dr by (auto intro: mono)
    then have n0: "0 \<le> n" and nle: "n \<le> 256 * r" using nr by (simp_all add: z)
    have q0: "0 \<le> n / r" using n0 r0 by simp
    have q1: "n / r \<le> 256" using nle r0 by (simp add: field_simps)
    have "\<bar>n / r\<bar> \<le> 2 ^ 80" using q0 q1 by simp
    then have f2: "fdiv rnd n r = Some (rnd (n / r))" using r0 by (simp add: fdiv_def fl_Some)
    have "rnd 0 \<le> rnd (n / r)" "rnd (n / r) \<le> rnd 256" using q0 q1 by (auto intro: mono)
    then have "0 \<le> rnd (n / r)" "rnd (n / r) \<le> 257" using r256 by (simp_all add: z)
    then have f3: "lround_long (rnd (n / r)) = Some (lround (rnd (n / r)))"
      by (rule lround_long_small)
    have "CalculateDisplayValue rnd 0 b v
        = display_value rnd 0 (rnd (real (unat v))) (rnd (real (unat (v - lo)))) (Some r)
            (real_of_int D)"
      using that(1)
      by (simp add: CalculateDisplayValue_def Let_def c pd flip: lo_def hi_def)
        (simp add: r_def D_def)
    also have "\<dots> = display_value rnd 0 (rnd (real (unat v))) d (Some r) (real_of_int D)"
      by (simp only: dd d_def)
    also have "\<dots> = Some (to_uint8 (lround (rnd (n / r))))"
      by (simp add: display_value_def f1 f2 f3)
    finally show ?thesis by (simp add: n_def d_def)
  qed
qed

text \<open>
  The \<open>double\<close> instance on the window \<open>[0, 1]\<close>, with exact arithmetic.
\<close>

lemma display_value_double_example:
  assumes "minDisplayedBrightness b = 0" "maxDisplayedBrightness b = 1"
  shows "CalculateDisplayValue_double (\<lambda>x. x) 0 b 0 = Some 0"
    and "CalculateDisplayValue_double (\<lambda>x. x) 0 b (1 / 2) = Some 128"
    and "CalculateDisplayValue_double (\<lambda>x. x) 0 b 1 = Some 255"
  using assms
  by (simp_all add: CalculateDisplayValue_double_def Let_def display_value_def fdiv_def fl_Some
      lround_long_def lround_def to_uint8_def)

text \<open>
  The \<open>double\<close> instance with exact arithmetic on every window for which
  \<open>255.0 * (max - min)\<close> stays finite: a sample inside the window is mapped to
  \<open>lround(255.0 * (v - lo) / (hi - lo))\<close>, so that the mapping is monotone on the
  window, 0 at its lower end and 255 at its upper end.
\<close>

lemma double_window_value:
  assumes lt: "minDisplayedBrightness b < maxDisplayedBrightness b"
    and fin: "255 * (maxDisplayedBrightness b - minDisplayedBrightness b) < overflow_threshold"
    and v: "minDisplayedBrightness b \<le> v" "v \<le> maxDisplayedBrightness b"
  shows "CalculateDisplayValue_double (\<lambda>x. x) 0 b v
       = Some (to_uint8 (lround (255 * (v - minDisplayedBrightness b)
                                   / (maxDisplayedBrightness b - minDisplayedBrightness b))))"
proof -
  define lo where "lo = minDisplayedBrightness b"
  define hi where "hi = maxDisplayedBrightness b"
  define r where "r = hi - lo"
  define d where "d = v - lo"
  have r: "0 < r" and d: "0 \<le> d" "d \<le> r" using lt v by (simp_all add: r_def d_def lo_def hi_def)
  have fin': "255 * r < overflow_threshold" using fin by (simp add: r_def lo_def hi_def)
  have val: "min (max v lo) hi = v" using v by (simp add: lo_def hi_def)
  have f1: "fl (\<lambda>x. x) d = Some d" using d r fin' by (simp add: fl_def)
  have f2: "fl (\<lambda>x. x) r = Some r" using r fin' by (simp add: fl_def)
  have f3: "fl (\<lambda>x. x) (255 * d) = Some (255 * d)" using d fin' by (simp add: fl_def)
  have q: "0 \<le> 255 * d / r" "255 * d / r \<le> 255" using r d by (simp_all add: field_simps)
  then have "\<bar>255 * d / r\<bar> < overflow_threshold" using threshold_large by simp
  then have f4: "fdiv (\<lambda>x. x) (255 * d) r = Some (255 * d / r)" using r by (simp add: fdiv_def fl_def)
  have f5: "lround_long (255 * d / r) = Some (lround (255 * d / r))"
    using q by (intro lround_long_small) simp_all
  have "CalculateDisplayValue_double (\<lambda>x. x) 0 b v
      = fl (\<lambda>x. x) d \<bind> (\<lambda>diff. display_value (\<lambda>x. x) 0 v diff (fl (\<lambda>x. x) r) r)"
    using v(1) by (simp only: CalculateDisplayValue_double_def Let_def val d_def r_def
        flip: lo_def hi_def) (simp add: lo_def)
  also have "\<dots> = Some (to_uint8 (lround (255 * d / r)))"
    by (simp add: display_value_def f1 f2 f3 f4 f5)
  finally have "CalculateDisplayValue_double (\<lambda>x. x) 0 b v = Some (to_uint8 (lround (255 * d / r)))" .
  then show ?thesis by (simp add: d_def r_def lo_def hi_def)
qed

lemma display_value_double_finite_window:
  assumes lt: "minDisplayedBrightness b < maxDisplayedBrightness b"
    and fin: "255 * (maxDisplayedBrightness b - minDisplayedBrightness b) < overflow_threshold"
  shows "(\<forall>v w. minDisplayedBrightness b \<le> v \<and> v \<le> w \<and> w \<le> maxDisplayedBrightness b \<longrightarrow>
            (\<exists>p q. CalculateDisplayValue_double (\<lambda>x. x) 0 b v = Some p
                 \<and> CalculateDisplayValue_double (\<lambda>x. x) 0 b w = Some q \<and> p \<le> q))"
    and "CalculateDisplayValue_double (\<lambda>x. x) 0 b (minDisplayedBrightness b) = Some 0"
    and "CalculateDisplayValue_double (\<lambda>x. x) 0 b (maxDisplayedBrightness b) = Some 255"
proof -
  note V = double_window_value[OF lt fin]
  define lo where "lo = minDisplayedBrightness b"
  define hi where "hi = maxDisplayedBrightness b"
  have r: "0 < hi - lo" using lt by (simp add: lo_def hi_def)
  show "CalculateDisplayValue_double (\<lambda>x. x) 0 b (minDisplayedBrightness b) = Some 0"
    using V[of "minDisplayedBrightness b"] lt by (simp add: lround_0 to_uint8_def)
  show "CalculateDisplayValue_double (\<lambda>x. x) 0 b (maxDisplayedBrightness b) = Some 255"
  proof -
    have "hi - lo \<noteq> 0" using r by simp
    then have e: "255 * (hi - lo) / (hi - lo) = 255" by (rule nonzero_mult_div_cancel_right)
    have "CalculateDisplayValue_double (\<lambda>x. x) 0 b hi
        = Some (to_uint8 (lround (255 * (hi - lo) / (hi - lo))))"
      unfolding lo_def hi_def using lt by (intro V) simp_all
    then show ?thesis by (simp only: e) (simp add: lround_255 to_uint8_def hi_def)
  qed
  show "\<forall>v w. minDisplayedBrightness b \<le> v \<and> v \<le> w \<and> w \<le> maxDisplayedBrightness b \<longrightarrow>
            (\<exists>p q. CalculateDisplayValue_double (\<lambda>x. x) 0 b v = Some p
                 \<and> CalculateDisplayValue_double (\<lambda>x. x) 0 b w = Some q \<and> p \<le> q)"
  proof (intro allI impI)
    fix v w
    assume a: "minDisplayedBrightness b \<le> v \<and> v \<le> w \<and> w \<le> maxDisplayedBrightness b"
    then have "255 * (v - lo) / (hi - lo) \<le> 255 * (w - lo) / (hi - lo)"
      using r by (simp add: divide_right_mono)
    then have "to_uint8 (lround (255 * (v - lo) / (hi - lo)))
             \<le> to_uint8 (lround (255 * (w - lo) / (hi - lo)))"
      by (intro to_uint8_mono lround_mono)
    moreover have "CalculateDisplayValue_double (\<lambda>x. x) 0 b v
         = Some (to_uint8 (lround (255 * (v - lo) / (hi - lo))))"
      using a by (simp add: V lo_def hi_def)
    moreover have "CalculateDisplayValue_double (\<lambda>x. x) 0 b w
         = Some (to_uint8 (lround (255 * (w - lo) / (hi - lo))))"
      using a by (simp add: V lo_def hi_def)
    ultimately show "\<exists>p q. CalculateDisplayValue_double (\<lambda>x. x) 0 b v = Some p
                 \<and> CalculateDisplayValue_double (\<lambda>x. x) 0 b w = Some q \<and> p \<le> q"
      by simp
  qed
qed

lemma DBL_MAX_large: "2 ^ 1023 \<le> DBL_MAX"
proof -
  have "(2::real) ^ 52 \<le> 2 ^ 53 - 1" by simp
  then have "(2::real) ^ 52 * 2 ^ 971 \<le> (2 ^ 53 - 1) * 2 ^ 971"
    by (intro mult_right_mono) auto
  moreover have "(2::real) ^ 52 * 2 ^ 971 = 2 ^ 1023" by (simp flip: power_add)
  ultimately show ?thesis by (simp add: DBL_MAX_def)
qed

lemma DBL_MAX_finite: "DBL_MAX < overflow_threshold"
proof -
  have "(2::real) ^ 53 * 2 ^ 971 = 2 ^ 1024" by (simp flip: power_add)
  then have "DBL_MAX = 2 ^ 1024 - 2 ^ 971" by (simp add: DBL_MAX_def algebra_simps)
  moreover have "(2::real) ^ 970 < 2 ^ 971" by (intro power_strict_increasing) auto
  ultimately show ?thesis by (simp add: overflow_threshold_def)
qed

lemma overflow_255_DBL_MAX: "fl rnd (255 * DBL_MAX) = None"
proof -
  have "(2::real) ^ 1024 = 2 * 2 ^ 1023" by simp
  then have "overflow_threshold \<le> 2 * 2 ^ 1023" by (simp add: overflow_threshold_def)
  also have "\<dots> \<le> 255 * DBL_MAX"
  proof -
    have "(0::real) \<le> 2 ^ 1023" by simp
    with DBL_MAX_large show ?thesis by linarith
  qed
  finally have "overflow_threshold \<le> \<bar>255 * DBL_MAX\<bar>" by linarith
  then show ?thesis by (simp add: fl_def)
qed

text \<open>
  Claim C7: with gamma equal to 0 and \<open>minDisplayed < maxDisplayed\<close>, the display mapping
  of one sample is monotone non-decreasing on the window, maps a sample equal to
  \<open>minDisplayed\<close> to exactly 0 and a sample equal to \<open>maxDisplayed\<close> to exactly 255.

  The code does not do this on a fresh \<open>double\<close> container, whose window is
  \<open>[0, DBL_MAX]\<close>, for the sample \<open>DBL_MAX\<close>.  The difference \<open>DBL_MAX - 0\<close> is exact, and
  \<open>val0 = 255.0 * diff / (_max - _min)\<close> multiplies before it divides: \<open>255.0 * diff\<close>
  overflows, whatever the rounding, the quotient of the infinity by \<open>DBL_MAX\<close> is an
  infinity, and \<open>std::lround\<close> receives it, where its result is unspecified (\<open>None\<close>
  in the model; an implementation that returns \<open>LONG_MIN\<close> there makes the clamp to
  \<open>[0, 255]\<close> return 0).  The quotient \<open>diff / (_max - _min)\<close> is 1 here, and the function
  clamps its result to \<open>[0, 255]\<close>: the order of the two operations loses the value 255
  that the same expression gives on every window for which the product is finite
  (\<open>display_value_double_finite_window\<close>) and for every unsigned sample type
  (\<open>display_value_linear\<close> below).
\<close>

theorem display_value_double_overflow:
  "\<exists>b. BitmapData_new (double_type (\<lambda>r g b. r)) 1 1 1 = Inr b
       \<and> minDisplayedBrightness b = 0 \<and> maxDisplayedBrightness b = DBL_MAX
       \<and> minDisplayedBrightness b < maxDisplayedBrightness b
       \<and> CalculateDisplayValue_double (\<lambda>x. x) 0 b (maxDisplayedBrightness b) = None
       \<and> CalculateDisplayValue_double (\<lambda>x. x) 0 b (maxDisplayedBrightness b) \<noteq> Some 255"
proof -
  have p: "0 < DBL_MAX" using DBL_MAX_large by (rule less_le_trans[rotated]) simp
  have f: "fl (\<lambda>x. x) DBL_MAX = Some DBL_MAX" using DBL_MAX_finite p by (simp add: fl_def)
  show ?thesis
    using p
    by (simp add: BitmapData_new_def Init_def members_def double_type_def
        CalculateDisplayValue_double_def Let_def display_value_def f overflow_255_DBL_MAX)
qed

text \<open>
  The unsigned sample types.  For every unsigned sample type of at most 64 bits, with
  gamma equal to 0 and \<open>minDisplayed < maxDisplayed\<close>, the display mapping returns a value
  for every sample, is monotone non-decreasing on sample values within
  \<open>[minDisplayed, maxDisplayed]\<close>, maps a sample equal to \<open>minDisplayed\<close> to exactly 0
  and a sample equal to \<open>maxDisplayed\<close> to exactly 255.  This holds for every rounding
  of the double operations that is monotone, exact at 0 and accurate to \<open>2^-53\<close>: the
  product \<open>255.0 * diff\<close> is below \<open>2^72\<close> and cannot overflow.
\<close>

theorem display_value_linear:
  fixes b :: "'w::len word BitmapData"
  assumes rn: "round_to_nearest rnd" and len: "LENGTH('w) \<le> 64"
    and lt: "minDisplayedBrightness b < maxDisplayedBrightness b"
  shows "(\<forall>v w. minDisplayedBrightness b \<le> v \<and> v \<le> w \<and> w \<le> maxDisplayedBrightness b \<longrightarrow>
            (\<exists>p q. CalculateDisplayValue rnd 0 b v = Some p
                 \<and> CalculateDisplayValue rnd 0 b w = Some q \<and> p \<le> q))
       \<and> CalculateDisplayValue rnd 0 b (minDisplayedBrightness b) = Some 0
       \<and> CalculateDisplayValue rnd 0 b (maxDisplayedBrightness b) = Some 255"
proof -
  define lo where "lo = minDisplayedBrightness b"
  define hi where "hi = maxDisplayedBrightness b"
  define D where "D = uint hi - uint lo"
  define r where "r = rnd (real_of_int D)"
  define f where "f v = rnd (rnd (255 * rnd (real_of_int (uint v - uint lo))) / r)" for v :: "'w word"
  note L = linear_display_value[OF rn len lt]
  have r0: "0 < r" unfolding r_def D_def lo_def hi_def by (rule L(1))
  have D1: "1 \<le> D" unfolding D_def lo_def hi_def by (rule L(2))
  have D2: "D \<le> 2 ^ 64" unfolding D_def lo_def hi_def by (rule L(3))
  have val: "CalculateDisplayValue rnd 0 b v = Some (to_uint8 (lround (f v)))"
    if "lo \<le> v" "v \<le> hi" for v
  proof -
    from that have a: "minDisplayedBrightness b \<le> v" "v \<le> maxDisplayedBrightness b"
      by (simp_all add: lo_def hi_def)
    show ?thesis unfolding f_def r_def D_def lo_def hi_def by (rule L(4)[OF a])
  qed
  have mono: "\<And>x y. x \<le> y \<Longrightarrow> rnd x \<le> rnd y" and z: "rnd 0 = 0"
    and err: "\<And>x. 1 \<le> x \<Longrightarrow> x \<le> 2 ^ 80 \<Longrightarrow> \<bar>rnd x - x\<bar> \<le> x / 2 ^ 53"
    using rn by (auto simp: round_to_nearest_def)
  have lh: "lo \<le> hi" using lt by (simp add: lo_def hi_def)
  have fm: "f v \<le> f w" if "v \<le> w" for v w
  proof -
    have "uint v - uint lo \<le> uint w - uint lo" using that by (simp add: word_le_def)
    then have "real_of_int (uint v - uint lo) \<le> real_of_int (uint w - uint lo)"
      by (simp only: of_int_le_iff)
    then have "rnd (real_of_int (uint v - uint lo)) \<le> rnd (real_of_int (uint w - uint lo))"
      by (rule mono)
    then have "255 * rnd (real_of_int (uint v - uint lo)) \<le> 255 * rnd (real_of_int (uint w - uint lo))"
      by simp
    then have "rnd (255 * rnd (real_of_int (uint v - uint lo)))
        \<le> rnd (255 * rnd (real_of_int (uint w - uint lo)))" by (rule mono)
    then have "rnd (255 * rnd (real_of_int (uint v - uint lo))) / r
        \<le> rnd (255 * rnd (real_of_int (uint w - uint lo))) / r"
      using r0 by (intro divide_right_mono) auto
    then show ?thesis unfolding f_def by (rule mono)
  qed
  have 1: "\<forall>v w. lo \<le> v \<and> v \<le> w \<and> w \<le> hi \<longrightarrow>
            (\<exists>p q. CalculateDisplayValue rnd 0 b v = Some p
                 \<and> CalculateDisplayValue rnd 0 b w = Some q \<and> p \<le> q)"
  proof (intro allI impI)
    fix v w assume a: "lo \<le> v \<and> v \<le> w \<and> w \<le> hi"
    then have "CalculateDisplayValue rnd 0 b v = Some (to_uint8 (lround (f v)))"
      and "CalculateDisplayValue rnd 0 b w = Some (to_uint8 (lround (f w)))"
      by (auto intro: val)
    moreover have "to_uint8 (lround (f v)) \<le> to_uint8 (lround (f w))"
      using a by (intro to_uint8_mono lround_mono fm) simp
    ultimately show "\<exists>p q. CalculateDisplayValue rnd 0 b v = Some p
                 \<and> CalculateDisplayValue rnd 0 b w = Some q \<and> p \<le> q" by blast
  qed
  have "f lo = 0" by (simp add: f_def z)
  then have 2: "CalculateDisplayValue rnd 0 b lo = Some 0"
    using val[of lo] lh by (simp add: lround_0 to_uint8_def)
  have R1: "1 \<le> real_of_int D" using D1 by simp
  have "real_of_int D \<le> real_of_int (2 ^ 64)" using D2 by (simp only: of_int_le_iff)
  then have R2: "real_of_int D \<le> 2 ^ 64" by simp
  then have R3: "real_of_int D \<le> 2 ^ 80" by (rule order_trans) simp
  have "\<bar>r - real_of_int D\<bar> \<le> real_of_int D / 2 ^ 53" using err[OF R1 R3] by (simp add: r_def)
  moreover have "real_of_int D / 2 ^ 53 \<le> real_of_int D / 2" using R1 by (intro divide_left_mono) auto
  ultimately have rb: "real_of_int D / 2 \<le> r" "r \<le> 2 * real_of_int D" using R1 by linarith+
  have n1: "1 \<le> 255 * r" using rb(1) R1 by linarith
  have "255 * r \<le> 255 * (2 * 2 ^ 64)" using rb(2) R2 by linarith
  also have "\<dots> \<le> (2::real) ^ 80" by simp
  finally have n2: "255 * r \<le> 2 ^ 80" .
  define n where "n = rnd (255 * r)"
  have "\<bar>n - 255 * r\<bar> \<le> 255 * r * (1 / 2 ^ 53)" using err[OF n1 n2] by (simp add: n_def)
  from quotient_close[OF r0 this] have qc: "\<bar>n / r - 255\<bar> \<le> 255 * (1 / 2 ^ 53)" .
  have small: "(255::real) * (1 / 2 ^ 53) \<le> 1 / 10" by simp
  have q: "254.9 \<le> n / r" "n / r \<le> 255.1" using qc small by linarith+
  have q1: "1 \<le> n / r" using q(1) by linarith
  have q2: "n / r \<le> 2 ^ 80" using q(2) by (rule order_trans) simp
  have "\<bar>rnd (n / r) - n / r\<bar> \<le> (n / r) / 2 ^ 53" by (rule err[OF q1 q2])
  moreover have "(n / r) / 2 ^ 53 \<le> 255.1 / 2 ^ 53" using q(2) by (intro divide_right_mono) auto
  moreover have "(255.1::real) / 2 ^ 53 \<le> 1 / 10" by simp
  ultimately have "254.5 \<le> rnd (n / r)" "rnd (n / r) < 255.5" using q by linarith+
  then have "lround (rnd (n / r)) = 255" by (rule lround_255)
  moreover have "f hi = rnd (n / r)" by (simp add: f_def n_def r_def D_def)
  ultimately have 3: "CalculateDisplayValue rnd 0 b hi = Some 255"
    using val[of hi] lh by (simp add: to_uint8_def)
  show ?thesis using 1 2 3 by (simp add: lo_def hi_def)
qed

theorem display_value_linear_witness:
  "round_to_nearest (\<lambda>x. x) \<and> LENGTH(8) \<le> 64
   \<and> minDisplayedBrightness (gray_2x1 3 200 \<lparr> minDisplayedBrightness := 10, maxDisplayedBrightness := 20 \<rparr>)
       < maxDisplayedBrightness (gray_2x1 3 200 \<lparr> minDisplayedBrightness := 10, maxDisplayedBrightness := 20 \<rparr>)
   \<and> CalculateDisplayValue (\<lambda>x. x) 0
         (gray_2x1 3 200 \<lparr> minDisplayedBrightness := 10, maxDisplayedBrightness := 20 \<rparr>) 10 = Some 0
   \<and> CalculateDisplayValue (\<lambda>x. x) 0
         (gray_2x1 3 200 \<lparr> minDisplayedBrightness := 10, maxDisplayedBrightness := 20 \<rparr>) 15 = Some 128
   \<and> CalculateDisplayValue (\<lambda>x. x) 0
         (gray_2x1 3 200 \<lparr> minDisplayedBrightness := 10, maxDisplayedBrightness := 20 \<rparr>) 20 = Some 255
   \<and> (\<exists>p q. CalculateDisplayValue (\<lambda>x. x) 0
         (gray_2x1 3 200 \<lparr> minDisplayedBrightness := 10, maxDisplayedBrightness := 20 \<rparr>) 12 = Some p
       \<and> CalculateDisplayValue (\<lambda>x. x) 0
         (gray_2x1 3 200 \<lparr> minDisplayedBrightness := 10, maxDisplayedBrightness := 20 \<rparr>) 17 = Some q
       \<and> p \<le> q)"
proof -
  let ?b = "gray_2x1 3 200 \<lparr> minDisplayedBrightness := 10, maxDisplayedBrightness := 20 \<rparr>"
  have rn: "round_to_nearest (\<lambda>x. x)" by (simp add: round_to_nearest_def)
  have len: "LENGTH(8) \<le> 64" by simp
  have lt: "minDisplayedBrightness ?b < maxDisplayedBrightness ?b" by (simp add: gray_2x1_def)
  have m: "minDisplayedBrightness ?b = 10" "maxDisplayedBrightness ?b = 20" by (simp_all add: gray_2x1_def)
  note t = display_value_linear[OF rn len lt]
  have 1: "CalculateDisplayValue (\<lambda>x. x) 0 ?b 10 = Some 0" using t m by simp
  have 3: "CalculateDisplayValue (\<lambda>x. x) 0 ?b 20 = Some 255" using t m by simp
  have "minDisplayedBrightness ?b \<le> 12 \<and> (12 :: 8 word) \<le> 17 \<and> 17 \<le> maxDisplayedBrightness ?b"
    by (simp add: gray_2x1_def)
  with t have 4: "\<exists>p q. CalculateDisplayValue (\<lambda>x. x) 0 ?b 12 = Some p
       \<and> CalculateDisplayValue (\<lambda>x. x) 0 ?b 17 = Some q \<and> p \<le> q" by blast
  have 2: "CalculateDisplayValue (\<lambda>x. x) 0 ?b 15 = Some 128"
    by (simp add: CalculateDisplayValue_def Let_def gray_2x1_def promoted_difference_def
        display_value_def fdiv_def fl_Some lround_long_def lround_def to_uint8_def)
  show ?thesis using rn len lt 1 2 3 4 by blast
qed

end
